theory Spec2Isabelle
  imports Main
begin

section \<open>Python strings\<close>

text \<open>
  A Python \<open>str\<close> is a sequence of Unicode code points; a code point is a natural number.
  \<open>str\<close> turns an ASCII literal into such a sequence.
\<close>

type_synonym pystr = "nat list"

definition str :: "string \<Rightarrow> pystr" where
  "str s = map of_char s"

text \<open>The line boundaries of \<open>str.splitlines\<close> and the white space of \<open>str.strip\<close>.\<close>

definition is_linebreak :: "nat \<Rightarrow> bool" where
  "is_linebreak c \<longleftrightarrow>
     c = 0x0A \<or> c = 0x0B \<or> c = 0x0C \<or> c = 0x0D \<or> c = 0x1C \<or> c = 0x1D \<or> c = 0x1E \<or>
     c = 0x85 \<or> c = 0x2028 \<or> c = 0x2029"

definition isspace :: "nat \<Rightarrow> bool" where
  "isspace c \<longleftrightarrow>
     (0x09 \<le> c \<and> c \<le> 0x0D) \<or> (0x1C \<le> c \<and> c \<le> 0x20) \<or> c = 0x85 \<or> c = 0xA0 \<or>
     c = 0x1680 \<or> (0x2000 \<le> c \<and> c \<le> 0x200A) \<or> c = 0x2028 \<or> c = 0x2029 \<or>
     c = 0x202F \<or> c = 0x205F \<or> c = 0x3000"

text \<open>
  \<open>Path.read_text()\<close> opens the file in text mode with universal newlines: \<open>\r\n\<close> and a
  lone \<open>\r\<close> are read as \<open>\n\<close>. The argument is the decoded text of the file.
  \<open>Path.write_text\<close> writes \<open>\n\<close> as it is (a POSIX platform).
\<close>

fun universal_newlines :: "pystr \<Rightarrow> pystr" where
  "universal_newlines [] = []"
| "universal_newlines (c # cs) =
     (if c = 0x0D then
        (case cs of
           [] \<Rightarrow> [0x0A]
         | d # ds \<Rightarrow> if d = 0x0A then 0x0A # universal_newlines ds
                     else 0x0A # universal_newlines cs)
      else c # universal_newlines cs)"

definition read_text :: "pystr \<Rightarrow> pystr" where
  "read_text file = universal_newlines file"

text \<open>
  \<open>str.splitlines()\<close>: the text is cut at every line boundary (\<open>\r\n\<close> is one boundary), the
  boundaries are dropped, and no empty last line is produced when the text ends with a
  boundary. \<open>cur\<close> is the line read so far.
\<close>

fun splitlines_from :: "pystr \<Rightarrow> pystr \<Rightarrow> pystr list" where
  "splitlines_from cur [] = (if cur = [] then [] else [cur])"
| "splitlines_from cur (c # cs) =
     (if c = 0x0D then
        (case cs of
           [] \<Rightarrow> [cur]
         | d # ds \<Rightarrow> if d = 0x0A then cur # splitlines_from [] ds
                     else cur # splitlines_from [] cs)
      else if is_linebreak c then cur # splitlines_from [] cs
      else splitlines_from (cur @ [c]) cs)"

definition splitlines :: "pystr \<Rightarrow> pystr list" where
  "splitlines s = splitlines_from [] s"

definition strip :: "pystr \<Rightarrow> pystr" where
  "strip s = rev (dropWhile isspace (rev (dropWhile isspace s)))"

definition startswith :: "pystr \<Rightarrow> pystr \<Rightarrow> bool" where
  "startswith s p \<longleftrightarrow> take (length p) s = p"

fun join :: "'a list \<Rightarrow> 'a list list \<Rightarrow> 'a list" where
  "join sep [] = []"
| "join sep [x] = x"
| "join sep (x # y # ys) = x @ sep @ join sep (y # ys)"

section \<open>The text-based removal of a section\<close>

text \<open>The f-string \<open>[submodule "{name}"]\<close>.\<close>

definition section_header :: "pystr \<Rightarrow> pystr" where
  "section_header name = str ''[submodule '' @ [0x22] @ name @ [0x22] @ str '']''"

text \<open>
  The \<open>for line in lines\<close> loop of \<open>remove_submodule\<close>, with its two variables \<open>skip\<close> and
  \<open>new_lines\<close>.
\<close>

fun remove_loop :: "pystr \<Rightarrow> bool \<Rightarrow> pystr list \<Rightarrow> pystr list \<Rightarrow> pystr list" where
  "remove_loop name skip new_lines [] = new_lines"
| "remove_loop name skip new_lines (line # lines) =
     (if startswith (strip line) (section_header name)
      then remove_loop name True new_lines lines
      else
        (let skip' = (if skip \<and> startswith (strip line) (str ''['') then False else skip)
         in if \<not> skip' then remove_loop name skip' (new_lines @ [line]) lines
            else remove_loop name skip' new_lines lines))"

text \<open>
  The fallback branch: from the text of the file to the text written back
  (\<open>content\<close>, \<open>lines\<close>, \<open>new_lines\<close>, \<open>new_content\<close> as in the source).
\<close>

definition fallback :: "pystr \<Rightarrow> pystr \<Rightarrow> pystr" where
  "fallback name file =
     (let content = read_text file;
          lines = splitlines content;
          new_lines = remove_loop name False [] lines;
          new_content = join [0x0A] new_lines @ [0x0A]
      in new_content)"

subsection \<open>The boundary rule in the specification's words\<close>

text \<open>
  Skipping begins at a line matching the target header and ends at (excluding) the next
  line that starts with \<open>[\<close>; with no such line it runs to the end. "Matching" and "starts
  with" are read on the line without its surrounding white space, as everywhere in the
  source.
\<close>

function skip_spec :: "pystr \<Rightarrow> pystr list \<Rightarrow> pystr list" where
  "skip_spec name [] = []"
| "skip_spec name (l # ls) =
     (if startswith (strip l) (section_header name)
      then skip_spec name (dropWhile (\<lambda>x. \<not> startswith (strip x) (str ''['')) ls)
      else l # skip_spec name ls)"
  by pat_completeness auto
termination
  by (relation "measure (\<lambda>(name, ls). length ls)")
     (auto simp: length_dropWhile_le less_Suc_eq_le)

subsection \<open>Files made of lines\<close>

text \<open>
  \<open>unlines\<close> is the text whose lines are \<open>ls\<close>, each ended by one \<open>\n\<close>; a line is \<open>plain\<close>
  when it holds no line boundary of its own.
\<close>

definition unlines :: "pystr list \<Rightarrow> pystr" where
  "unlines ls = concat (map (\<lambda>l. l @ [0x0A]) ls)"

definition plain :: "pystr \<Rightarrow> bool" where
  "plain l \<longleftrightarrow> list_all (\<lambda>c. \<not> is_linebreak c) l"

definition exactly_one_trailing_newline :: "pystr \<Rightarrow> bool" where
  "exactly_one_trailing_newline s =
     (case rev s of
        [] \<Rightarrow> False
      | c # t \<Rightarrow> c = 0x0A \<and> (case t of [] \<Rightarrow> True | d # _ \<Rightarrow> d \<noteq> 0x0A))"

section \<open>The file system and the external commands\<close>

text \<open>
  A path is the list of its components below the working directory \<open>Path.cwd()\<close>.
  A node is what \<open>lstat\<close> sees in the source tree: a regular file with its bytes, a
  directory with its entries, a symbolic link with its target, a named pipe, or the
  destination directory of the copy itself, met while the source is walked. \<open>followed\<close>
  is what the system finds when it follows a link: nothing (a dangling link), a regular
  file, a directory, a named pipe, or the destination directory.
\<close>

type_synonym path = "pystr list"

datatype node =
    File string
  | Dir "(pystr \<times> node) list"
  | Symlink pystr
  | Fifo
  | Destination

datatype followed =
    Missing
  | Regular string
  | Directory "(pystr \<times> node) list"
  | Pipe
  | ToDestination

text \<open>
  A piece of a printed line or of a command line: a literal, a path rendered by \<open>str()\<close>,
  or a formatted integer.
\<close>

datatype frag = S pystr | P path | I int

text \<open>
  The exceptions. \<open>CalledProcessError\<close> carries the return code and is the only one the
  program catches; \<open>OSError\<close> stands for an error of the operating system other than the
  ones named (permission denied, no space left); \<open>RecursionError\<close> is what ends a copy
  that descends into its own output (with long names the limit on the length of a path
  is met first, and the exception is \<open>shutil.Error\<close>).
\<close>

datatype error =
    FileNotFoundError
  | FileExistsError
  | IsADirectoryError
  | SpecialFileError
  | OSError
  | UnicodeError
  | ShutilError
  | RecursionError

datatype exn = CalledProcessError int | Raised error

text \<open>
  The events of a run. \<open>Print\<close> is a line written to the standard output, \<open>Exec\<close> a
  command line handed to \<open>subprocess.run\<close> with its \<open>cwd\<close>, \<open>WriteText\<close> a file written;
  \<open>Rmtree\<close>, \<open>CopyBackup\<close>, \<open>Mkdir\<close>, \<open>CopyTree\<close> and \<open>Copy2\<close> are calls of the functions of
  these names.
\<close>

datatype event =
    Print "frag list"
  | Exec "frag list" "path option"
  | WriteText path pystr
  | Rmtree path
  | CopyBackup path path
  | Mkdir path
  | CopyTree path path
  | Copy2 path path

text \<open>
  What the program observes of the outside:
  \<^item> whether a path exists when it is tested;
  \<^item> for each command line (each is issued at most once in a run) the return code of
    the command, or the error \<open>subprocess.run\<close> raises when the command cannot be
    started (the program or the working directory is missing);
  \<^item> which code points beyond ASCII the encoding of the standard output can encode
    (ASCII and the name of the working directory are taken to be encodable);
  \<^item> the decoded text of a file when it is read, or the error of the read;
  \<^item> the error, if any, of writing a file, of copying the backup, of making a
    directory, and of copying the entry at a path (an error the system reports, such
    as permission denied);
  \<^item> the entries of a directory when it is listed, or the error of the listing;
  \<^item> where the links of the listed directory lead.
\<close>

record world =
  path_exists :: "path \<Rightarrow> bool"
  returncode :: "frag list \<Rightarrow> error + int"
  stdout_encodes :: "nat \<Rightarrow> bool"
  file_text :: "path \<Rightarrow> error + pystr"
  write_error :: "path \<Rightarrow> error option"
  backup_copy_error :: "error option"
  mkdir_error :: "path \<Rightarrow> error option"
  copy_error :: "path \<Rightarrow> error option"
  iterdir :: "path \<Rightarrow> error + (pystr \<times> node) list"
  follow :: "pystr \<Rightarrow> followed"

text \<open>
  A computation yields an exception or a value, and the events it caused, in order.
\<close>

type_synonym 'a io = "(exn + 'a) \<times> event list"

definition ret :: "'a \<Rightarrow> 'a io" where
  "ret x = (Inr x, [])"

definition emit :: "event \<Rightarrow> unit io" where
  "emit e = (Inr (), [e])"

definition raise :: "exn \<Rightarrow> 'a io" where
  "raise e = (Inl e, [])"

definition bind :: "'a io \<Rightarrow> ('a \<Rightarrow> 'b io) \<Rightarrow> 'b io" where
  "bind m f =
     (case fst m of
        Inl e \<Rightarrow> (Inl e, snd m)
      | Inr x \<Rightarrow> (fst (f x), snd m @ snd (f x)))"

definition is_CalledProcessError :: "exn \<Rightarrow> bool" where
  "is_CalledProcessError e = (case e of CalledProcessError _ \<Rightarrow> True | _ \<Rightarrow> False)"

text \<open>\<open>try: m except subprocess.CalledProcessError: handler\<close>.\<close>

definition try_except :: "'a io \<Rightarrow> 'a io \<Rightarrow> 'a io" where
  "try_except m handler =
     (case fst m of
        Inl e \<Rightarrow> if is_CalledProcessError e then (fst handler, snd m @ snd handler)
                 else (Inl e, snd m)
      | Inr x \<Rightarrow> m)"

text \<open>
  \<open>print\<close>: the line is written when the standard output can encode every code point of
  it, and \<open>UnicodeEncodeError\<close> is raised otherwise.
\<close>

definition encodes :: "world \<Rightarrow> nat \<Rightarrow> bool" where
  "encodes w c \<longleftrightarrow> c < 0x80 \<or> stdout_encodes w c"

definition frag_encodable :: "world \<Rightarrow> frag \<Rightarrow> bool" where
  "frag_encodable w f =
     (case f of
        S s \<Rightarrow> list_all (encodes w) s
      | P p \<Rightarrow> list_all (list_all (encodes w)) p
      | I i \<Rightarrow> True)"

definition encodable :: "world \<Rightarrow> frag list \<Rightarrow> bool" where
  "encodable w msg = list_all (frag_encodable w) msg"

definition py_print :: "world \<Rightarrow> frag list \<Rightarrow> unit io" where
  "py_print w msg = (if encodable w msg then emit (Print msg) else raise (Raised UnicodeError))"

text \<open>
  \<open>run\<close>, as every call of the program uses it (\<open>capture_output=False\<close>, a list for
  \<open>cmd\<close>): the command line is echoed and handed to \<open>subprocess.run\<close>; when the command
  cannot be started the error of the system is raised, and \<open>check=True\<close> raises
  \<open>CalledProcessError\<close> with the return code when it is not zero.
\<close>

definition echo_line :: "frag list \<Rightarrow> frag list" where
  "echo_line cmd = S (str ''+ '') # join [S (str '' '')] (map (\<lambda>a. [a]) cmd)"

definition echo :: "frag list \<Rightarrow> event" where
  "echo cmd = Print (echo_line cmd)"

definition run :: "world \<Rightarrow> frag list \<Rightarrow> path option \<Rightarrow> unit io" where
  "run w cmd cwd =
     bind (py_print w (echo_line cmd)) (\<lambda>_.
     bind (emit (Exec cmd cwd)) (\<lambda>_.
     (case returncode w cmd of
        Inl e \<Rightarrow> raise (Raised e)
      | Inr rc \<Rightarrow> if rc \<noteq> 0 then raise (CalledProcessError rc) else ret ())))"

section \<open>Removing a submodule\<close>

text \<open>The four command lines of \<open>remove_submodule\<close>.\<close>

definition git_config_file_remove_section :: "path \<Rightarrow> pystr \<Rightarrow> frag list" where
  "git_config_file_remove_section gitmodules name =
     [S (str ''git''), S (str ''config''), S (str ''-f''), P gitmodules,
      S (str ''--remove-section''), S (str ''submodule.'' @ name)]"

definition git_add_gitmodules :: "frag list" where
  "git_add_gitmodules = [S (str ''git''), S (str ''add''), S (str ''.gitmodules'')]"

definition git_config_remove_section :: "pystr \<Rightarrow> frag list" where
  "git_config_remove_section name =
     [S (str ''git''), S (str ''config''), S (str ''--remove-section''),
      S (str ''submodule.'' @ name)]"

definition git_rm_cached :: "pystr \<Rightarrow> frag list" where
  "git_rm_cached name =
     [S (str ''git''), S (str ''rm''), S (str ''--cached''), S (str ''-f''), S name]"

text \<open>The lines it prints.\<close>

definition removing_line :: "path \<Rightarrow> pystr \<Rightarrow> frag list" where
  "removing_line path name =
     [S (str ''Removing submodule '' @ [0x27]), S name, S ([0x27] @ str '' from ''), P path,
      S (str ''...'')]"

definition warn_gitmodules :: "pystr \<Rightarrow> frag list" where
  "warn_gitmodules name =
     [S (str ''Warning: submodule.''), S name,
      S (str '' not found in .gitmodules '' @ [0x2014] @ str '' attempting manual removal'')]"

definition warn_stage :: "frag list" where
  "warn_stage = [S (str ''Warning: could not stage .gitmodules'')]"

definition warn_config :: "pystr \<Rightarrow> frag list" where
  "warn_config name =
     [S (str ''Warning: submodule.''), S name, S (str '' not found in .git/config'')]"

definition warn_unstage :: "pystr \<Rightarrow> frag list" where
  "warn_unstage name =
     [S (str ''Warning: could not unstage '' @ [0x27]), S name,
      S ([0x27] @ str '' (maybe not tracked?)'')]"

text \<open>
  The \<open>except\<close> branch of the structured removal: the warning, then the file is read,
  rewritten by \<open>fallback\<close> and written back. Each of the three can raise.
\<close>

definition manual_removal :: "world \<Rightarrow> path \<Rightarrow> pystr \<Rightarrow> bool io" where
  "manual_removal w gitmodules name =
     bind (py_print w (warn_gitmodules name)) (\<lambda>_.
     (case file_text w gitmodules of
        Inl e \<Rightarrow> raise (Raised e)
      | Inr file \<Rightarrow>
          (case write_error w gitmodules of
             Some e \<Rightarrow> raise (Raised e)
           | None \<Rightarrow>
               bind (emit (WriteText gitmodules (fallback name file))) (\<lambda>_.
               ret True))))"

text \<open>
  The first part of \<open>remove_submodule\<close>: the structured removal and its fallback. The
  value is the flag \<open>modified_gitmodules\<close>.
\<close>

definition remove_from_gitmodules :: "world \<Rightarrow> path \<Rightarrow> pystr \<Rightarrow> bool io" where
  "remove_from_gitmodules w path name =
     (let gitmodules = path @ [str ''.gitmodules''] in
      if path_exists w gitmodules then
        try_except
          (bind (run w (git_config_file_remove_section gitmodules name) (Some path)) (\<lambda>_.
           ret True))
          (manual_removal w gitmodules name)
      else ret False)"

text \<open>
  The rest of \<open>remove_submodule\<close>, from the staging of \<open>.gitmodules\<close> on.
\<close>

definition finish_removal :: "world \<Rightarrow> path \<Rightarrow> pystr \<Rightarrow> bool \<Rightarrow> unit io" where
  "finish_removal w path name modified_gitmodules =
     bind (if modified_gitmodules
           then try_except (run w git_add_gitmodules (Some path)) (py_print w warn_stage)
           else ret ()) (\<lambda>_.
     bind (try_except (run w (git_config_remove_section name) (Some path))
             (py_print w (warn_config name))) (\<lambda>_.
     bind (try_except (run w (git_rm_cached name) (Some path))
             (py_print w (warn_unstage name))) (\<lambda>_.
     bind (if path_exists w (path @ [name]) then emit (Rmtree (path @ [name])) else ret ()) (\<lambda>_.
     if path_exists w (path @ [str ''.git'', str ''modules'', name])
     then emit (Rmtree (path @ [str ''.git'', str ''modules'', name]))
     else ret ()))))"

definition remove_submodule :: "world \<Rightarrow> path \<Rightarrow> pystr \<Rightarrow> unit io" where
  "remove_submodule w path name =
     bind (py_print w (removing_line path name)) (\<lambda>_.
     bind (remove_from_gitmodules w path name) (\<lambda>modified_gitmodules.
     finish_removal w path name modified_gitmodules))"

section \<open>Copying the local repository\<close>

text \<open>
  \<open>shutil.copytree(src, dst, symlinks=True)\<close> on the entries of the source directory: a
  link is made again as a link to the same target, a directory is copied recursively, a
  file is copied with \<open>copy2\<close>. A named pipe makes \<open>copy2\<close> raise; such errors are
  collected while the other entries are copied, and raised as one \<open>shutil.Error\<close> at the
  end. Below the destination directory the copy follows its own output until the
  interpreter stops it; that exception is not collected.
\<close>

definition collect ::
  "pystr \<Rightarrow> error + node \<Rightarrow> error + (pystr \<times> node) list \<Rightarrow> error + (pystr \<times> node) list" where
  "collect nm first rest =
     (case first of
        Inl e \<Rightarrow>
          if e = RecursionError then Inl RecursionError
          else (case rest of
                  Inl e' \<Rightarrow> if e' = RecursionError then Inl RecursionError else Inl ShutilError
                | Inr r \<Rightarrow> Inl ShutilError)
      | Inr n \<Rightarrow> (case rest of Inl e' \<Rightarrow> Inl e' | Inr r \<Rightarrow> Inr ((nm, n) # r)))"

fun copytree :: "(pystr \<times> node) list \<Rightarrow> error + (pystr \<times> node) list" where
  "copytree [] = Inr []"
| "copytree ((nm, Symlink t) # es) = collect nm (Inr (Symlink t)) (copytree es)"
| "copytree ((nm, Dir sub) # es) =
     collect nm (case copytree sub of Inl e \<Rightarrow> Inl e | Inr s \<Rightarrow> Inr (Dir s)) (copytree es)"
| "copytree ((nm, Destination) # es) = collect nm (Inl RecursionError) (copytree es)"
| "copytree ((nm, File c) # es) = collect nm (Inr (File c)) (copytree es)"
| "copytree ((nm, Fifo) # es) = collect nm (Inl SpecialFileError) (copytree es)"

text \<open>
  \<open>Path.is_dir()\<close> and \<open>os.scandir\<close> follow a link; so does \<open>shutil.copy2\<close>. The destination
  directory, listed as an entry of the source or reached through a link, is scanned as
  it is at that moment: \<open>dst\<close>, what has been copied so far.
\<close>

definition is_dir :: "(pystr \<Rightarrow> followed) \<Rightarrow> node \<Rightarrow> bool" where
  "is_dir fl item =
     (case item of
        Dir _ \<Rightarrow> True
      | Destination \<Rightarrow> True
      | File _ \<Rightarrow> False
      | Fifo \<Rightarrow> False
      | Symlink t \<Rightarrow>
          (case fl t of Directory _ \<Rightarrow> True | ToDestination \<Rightarrow> True | _ \<Rightarrow> False))"

definition scandir ::
  "(pystr \<Rightarrow> followed) \<Rightarrow> (pystr \<times> node) list \<Rightarrow> node \<Rightarrow> (pystr \<times> node) list" where
  "scandir fl dst item =
     (case item of
        Dir es \<Rightarrow> es
      | Destination \<Rightarrow> dst
      | File _ \<Rightarrow> []
      | Fifo \<Rightarrow> []
      | Symlink t \<Rightarrow>
          (case fl t of Directory es \<Rightarrow> es | ToDestination \<Rightarrow> dst | _ \<Rightarrow> []))"

definition copy2 :: "(pystr \<Rightarrow> followed) \<Rightarrow> node \<Rightarrow> error + node" where
  "copy2 fl item =
     (case item of
        File c \<Rightarrow> Inr (File c)
      | Fifo \<Rightarrow> Inl SpecialFileError
      | Dir _ \<Rightarrow> Inl IsADirectoryError
      | Destination \<Rightarrow> Inl IsADirectoryError
      | Symlink t \<Rightarrow>
          (case fl t of
             Regular c \<Rightarrow> Inr (File c)
           | Missing \<Rightarrow> Inl FileNotFoundError
           | Pipe \<Rightarrow> Inl SpecialFileError
           | Directory _ \<Rightarrow> Inl IsADirectoryError
           | ToDestination \<Rightarrow> Inl IsADirectoryError))"

text \<open>
  What one pass of the loop body puts at the destination for \<open>item\<close>, or the error it
  raises: the \<open>copytree\<close> branch when \<open>item.is_dir()\<close>, the \<open>copy2\<close> branch otherwise; an
  error the system reports for this entry comes first.
\<close>

definition copy_item ::
  "world \<Rightarrow> path \<Rightarrow> (pystr \<times> node) list \<Rightarrow> pystr \<Rightarrow> node \<Rightarrow> error + node" where
  "copy_item w src_root dst nm item =
     (case copy_error w (src_root @ [nm]) of
        Some e \<Rightarrow> Inl e
      | None \<Rightarrow>
          if is_dir (follow w) item then
            (case copytree (scandir (follow w) dst item) of
               Inl e \<Rightarrow> Inl e
             | Inr s \<Rightarrow> Inr (Dir s))
          else copy2 (follow w) item)"

text \<open>
  The \<open>for item in src_root.iterdir()\<close> loop. \<open>dst\<close> is the content of the destination
  directory so far; the destination is empty when the loop starts (\<open>mkdir\<close> has just made
  it, or it was there and empty).
\<close>

fun copy_loop ::
  "world \<Rightarrow> path \<Rightarrow> path \<Rightarrow> pystr \<Rightarrow> (pystr \<times> node) list \<Rightarrow>
     (pystr \<times> node) list \<Rightarrow> (pystr \<times> node) list io" where
  "copy_loop w src_root dst_libs exclude_dir [] dst = ret dst"
| "copy_loop w src_root dst_libs exclude_dir ((nm, item) # items) dst =
     (if nm = exclude_dir then copy_loop w src_root dst_libs exclude_dir items dst
      else
        bind (emit (if is_dir (follow w) item
                    then CopyTree (src_root @ [nm]) (dst_libs @ [nm])
                    else Copy2 (src_root @ [nm]) (dst_libs @ [nm]))) (\<lambda>_.
        (case copy_item w src_root dst nm item of
           Inl e \<Rightarrow> raise (Raised e)
         | Inr n \<Rightarrow> copy_loop w src_root dst_libs exclude_dir items (dst @ [(nm, n)]))))"

text \<open>The value is the content of the destination directory after the copy.\<close>

definition copying_line :: "path \<Rightarrow> frag list" where
  "copying_line dst_libs =
     [S (str ''Copying local repository into '' @ [0x27]), P dst_libs, S ([0x27] @ str ''...'')]"

definition copy_local_repo_to_libs ::
  "world \<Rightarrow> path \<Rightarrow> path \<Rightarrow> pystr \<Rightarrow> (pystr \<times> node) list io" where
  "copy_local_repo_to_libs w src_root dst_libs exclude_dir =
     bind (py_print w (copying_line dst_libs)) (\<lambda>_.
     bind (emit (Mkdir dst_libs)) (\<lambda>_.
     (case mkdir_error w dst_libs of
        Some e \<Rightarrow> raise (Raised e)
      | None \<Rightarrow>
          (case iterdir w src_root of
             Inl e \<Rightarrow> raise (Raised e)
           | Inr items \<Rightarrow> copy_loop w src_root dst_libs exclude_dir items []))))"

section \<open>The workflow\<close>

definition root :: path where
  "root = []"

definition ci_tmp :: path where
  "ci_tmp = root @ [str ''ci-tmp'']"

definition ci_tmp_bk :: path where
  "ci_tmp_bk = root @ [str ''ci-tmp-bk'']"

definition repo_url :: pystr where
  "repo_url = str ''https://github.com/etlegacy/etlegacy.git''"

definition git_clone :: "frag list" where
  "git_clone = [S (str ''git''), S (str ''clone''), S repo_url, P ci_tmp]"

definition git_submodule_sync :: "frag list" where
  "git_submodule_sync = [S (str ''git''), S (str ''submodule''), S (str ''sync'')]"

definition git_submodule_update :: "frag list" where
  "git_submodule_update =
     [S (str ''git''), S (str ''submodule''), S (str ''update''), S (str ''--init''),
      S (str ''--recursive'')]"

text \<open>\<open>shutil.copytree(ci_tmp_bk, ci_tmp)\<close>; the world says whether it raises.\<close>

definition copy_backup :: "world \<Rightarrow> unit io" where
  "copy_backup w =
     bind (emit (CopyBackup ci_tmp_bk ci_tmp)) (\<lambda>_.
     (case backup_copy_error w of Some e \<Rightarrow> raise (Raised e) | None \<Rightarrow> ret ()))"

text \<open>The first step of \<open>main\<close>: clone or copy \<open>ci-tmp\<close>.\<close>

definition acquire :: "world \<Rightarrow> unit io" where
  "acquire w =
     (if \<not> path_exists w ci_tmp then
        (if path_exists w ci_tmp_bk then
           bind (py_print w [S (str ''Copying ci-tmp-bk to ci-tmp...'')]) (\<lambda>_.
           copy_backup w)
         else
           bind (py_print w [S (str ''Cloning repository...'')]) (\<lambda>_.
           run w git_clone None))
      else ret ())"

definition main :: "world \<Rightarrow> unit io" where
  "main w =
     bind (acquire w) (\<lambda>_.
     bind (remove_submodule w ci_tmp (str ''libs'')) (\<lambda>_.
     bind (py_print w [S (str ''Initializing and updating remaining submodules...'')]) (\<lambda>_.
     bind (run w git_submodule_sync (Some ci_tmp)) (\<lambda>_.
     bind (run w git_submodule_update (Some ci_tmp)) (\<lambda>_.
     bind (copy_local_repo_to_libs w root (ci_tmp @ [str ''libs'']) (str ''ci-tmp'')) (\<lambda>_.
     ret ()))))))"

text \<open>
  The \<open>__main__\<close> block: the exit status of the process and the events of the run. A run
  that ends normally has status 0. For a \<open>CalledProcessError\<close> the return code is printed
  and \<open>sys.exit(e.returncode)\<close> ends the process; the system keeps the low eight bits of
  the argument as the status. Any other exception is not caught, and the interpreter
  ends with status 1.
\<close>

definition failed_line :: "int \<Rightarrow> frag list" where
  "failed_line rc = [S (str ''Command failed with exit code ''), I rc]"

definition script :: "world \<Rightarrow> int \<times> event list" where
  "script w =
     (case fst (main w) of
        Inr _ \<Rightarrow> (0, snd (main w))
      | Inl e \<Rightarrow>
          (case e of
             CalledProcessError rc \<Rightarrow>
               (case fst (py_print w (failed_line rc)) of
                  Inr _ \<Rightarrow> (rc mod 256, snd (main w) @ snd (py_print w (failed_line rc)))
                | Inl _ \<Rightarrow> (1, snd (main w)))
           | Raised _ \<Rightarrow> (1, snd (main w))))"

text \<open>Counting the clone commands and the copies of the backup among the events.\<close>

definition is_clone :: "event \<Rightarrow> bool" where
  "is_clone e =
     (case e of
        Exec cmd _ \<Rightarrow> take 2 cmd = [S (str ''git''), S (str ''clone'')]
      | _ \<Rightarrow> False)"

definition is_backup_copy :: "event \<Rightarrow> bool" where
  "is_backup_copy e = (case e of CopyBackup _ _ \<Rightarrow> True | _ \<Rightarrow> False)"

text \<open>The events that only the final copy step causes.\<close>

definition is_copy_step :: "event \<Rightarrow> bool" where
  "is_copy_step e =
     (case e of
        Mkdir _ \<Rightarrow> True
      | CopyTree _ _ \<Rightarrow> True
      | Copy2 _ _ \<Rightarrow> True
      | _ \<Rightarrow> False)"



section \<open>Properties of the text-based removal\<close>

subsection \<open>The loop\<close>

lemma remove_loop_acc:
  "remove_loop name skip acc ls = acc @ remove_loop name skip [] ls"
proof (induction ls arbitrary: skip acc)
  case Nil
  then show ?case by simp
next
  case (Cons l ls)
  show ?case
    using Cons.IH[of True acc] Cons.IH[of False acc] Cons.IH[of False "acc @ [l]"]
      Cons.IH[of False "[l]"]
    by (simp add: Let_def)
qed

lemma target_is_header:
  "startswith (strip l) (section_header name) \<Longrightarrow> startswith (strip l) (str ''['')"
  by (cases "strip l") (auto simp: startswith_def section_header_def str_def)

lemma loop_spec:
  "remove_loop name False [] ls = skip_spec name ls \<and>
   remove_loop name True [] ls =
     skip_spec name (dropWhile (\<lambda>x. \<not> startswith (strip x) (str ''['')) ls)"
proof (induction ls)
  case Nil
  then show ?case by simp
next
  case (Cons l ls)
  show ?case
  proof (cases "startswith (strip l) (section_header name)")
    case True
    then show ?thesis using Cons target_is_header[OF True] by simp
  next
    case False
    then show ?thesis using Cons remove_loop_acc[of name False "[l]" ls]
      by (simp add: Let_def)
  qed
qed

lemma remove_loop_subset: "set (remove_loop name skip [] ls) \<subseteq> set ls"
proof (induction ls arbitrary: skip)
  case Nil
  then show ?case by simp
next
  case (Cons l ls)
  show ?case
    using Cons[of True] Cons[of False] remove_loop_acc[of name False "[l]" ls]
    by (auto simp: Let_def)
qed

lemma remove_loop_no_target:
  "l \<in> set (remove_loop name skip [] ls) \<Longrightarrow> \<not> startswith (strip l) (section_header name)"
proof (induction ls arbitrary: skip)
  case Nil
  then show ?case by simp
next
  case (Cons x ls)
  show ?case
    using Cons.prems Cons.IH[of True] Cons.IH[of False] remove_loop_acc[of name False "[x]" ls]
    by (auto simp: Let_def split: if_splits)
qed

lemma remove_loop_id:
  "\<forall>l \<in> set ls. \<not> startswith (strip l) (section_header name) \<Longrightarrow>
   remove_loop name False [] ls = ls"
proof (induction ls)
  case Nil
  then show ?case by simp
next
  case (Cons x ls)
  then show ?case using remove_loop_acc[of name False "[x]" ls] by simp
qed

lemma remove_loop_pre:
  "\<forall>l \<in> set pre. \<not> startswith (strip l) (section_header name) \<Longrightarrow>
   remove_loop name False [] (pre @ rest) = pre @ remove_loop name False [] rest"
proof (induction pre)
  case Nil
  then show ?case by simp
next
  case (Cons x pre)
  then show ?case
    using remove_loop_acc[of name False "[x]" "pre @ rest"] by simp
qed

lemma remove_loop_body:
  "\<forall>l \<in> set body. \<not> startswith (strip l) (str ''['') \<Longrightarrow>
   remove_loop name True [] (body @ rest) = remove_loop name True [] rest"
proof (induction body)
  case Nil
  then show ?case by simp
next
  case (Cons x body)
  then have "\<not> startswith (strip x) (section_header name)"
    using target_is_header[of x name] by auto
  then show ?case using Cons by simp
qed

lemma remove_loop_post:
  assumes "case post of [] \<Rightarrow> True | p # _ \<Rightarrow> startswith (strip p) (str ''['')"
    and "\<forall>l \<in> set post. \<not> startswith (strip l) (section_header name)"
  shows "remove_loop name True [] post = post"
proof (cases post)
  case Nil
  then show ?thesis by simp
next
  case (Cons p ps)
  then show ?thesis
    using assms remove_loop_acc[of name False "[p]" ps] remove_loop_id[of ps name]
    by simp
qed

lemma block_removed:
  assumes "startswith (strip h) (section_header name)"
    and "\<forall>l \<in> set pre. \<not> startswith (strip l) (section_header name)"
    and "\<forall>l \<in> set body. \<not> startswith (strip l) (str ''['')"
    and "case post of [] \<Rightarrow> True | p # _ \<Rightarrow> startswith (strip p) (str ''['')"
    and "\<forall>l \<in> set post. \<not> startswith (strip l) (section_header name)"
  shows "remove_loop name False [] (pre @ h # body @ post) = pre @ post"
  using assms remove_loop_pre[of pre name "h # body @ post"]
    remove_loop_body[of body name post] remove_loop_post[of post name]
  by simp

subsection \<open>Lines and text\<close>

lemma join_unlines: "ls \<noteq> [] \<Longrightarrow> join [0x0A] ls @ [0x0A] = unlines ls"
  by (induction "[0x0A::nat]" ls rule: join.induct) (auto simp: unlines_def)

lemma join_snoc: "join sep (ks @ [y]) = (if ks = [] then y else join sep ks @ sep @ y)"
  by (induction sep ks rule: join.induct) auto

lemma universal_newlines_id: "13 \<notin> set s \<Longrightarrow> universal_newlines s = s"
  by (induction s rule: universal_newlines.induct) auto

lemma splitlines_from_plain:
  "plain l \<Longrightarrow> splitlines_from cur (l @ 0x0A # rest) = (cur @ l) # splitlines_from [] rest"
proof (induction l arbitrary: cur)
  case Nil
  then show ?case by (simp add: is_linebreak_def)
next
  case (Cons c l)
  then have c: "\<not> is_linebreak c" and l: "plain l" by (auto simp: plain_def)
  from c have "c \<noteq> 0x0D" by (auto simp: is_linebreak_def)
  then show ?case using c Cons.IH[OF l, of "cur @ [c]"] by simp
qed

lemma splitlines_unlines: "list_all plain ls \<Longrightarrow> splitlines (unlines ls) = ls"
proof (induction ls)
  case Nil
  then show ?case by (simp add: splitlines_def unlines_def)
next
  case (Cons l ls)
  then show ?case
    using splitlines_from_plain[of l "[]" "unlines ls"]
    by (simp add: splitlines_def unlines_def)
qed

lemma plain_no_cr: "list_all plain ls \<Longrightarrow> 13 \<notin> set (unlines ls)"
  by (induction ls) (auto simp: unlines_def plain_def is_linebreak_def list_all_iff)

lemma splitlines_from_all_plain: "plain cur \<Longrightarrow> list_all plain (splitlines_from cur s)"
proof (induction cur s rule: splitlines_from.induct)
  case (1 cur)
  then show ?case by simp
next
  case (2 cur c cs)
  have e: "plain []" by (simp add: plain_def)
  show ?case
  proof (cases "c = 0x0D")
    case True
    then show ?thesis using 2 e by (auto split: list.splits)
  next
    case False
    then show ?thesis using 2 e by (auto simp: plain_def)
  qed
qed

lemma splitlines_all_plain: "list_all plain (splitlines s)"
  by (simp add: splitlines_def splitlines_from_all_plain plain_def)

lemma kept_plain: "list_all plain (remove_loop name False [] (splitlines s))"
  using remove_loop_subset[of name False "splitlines s"] splitlines_all_plain[of s]
  by (auto simp: list_all_iff)

lemma plain_last: "plain y \<Longrightarrow> y \<noteq> [] \<Longrightarrow> last y \<noteq> 0x0A"
  by (auto simp: plain_def list_all_iff is_linebreak_def)

lemma exactly_one_snoc:
  "exactly_one_trailing_newline (t @ [0x0A]) \<longleftrightarrow> (t = [] \<or> last t \<noteq> 0x0A)"
  by (cases t rule: rev_cases) (auto simp: exactly_one_trailing_newline_def)

lemma join_kept_newline:
  assumes "list_all plain kept"
  shows "exactly_one_trailing_newline (join [0x0A] kept @ [0x0A]) \<longleftrightarrow>
         (length kept < 2 \<or> last kept \<noteq> [])"
proof (cases kept rule: rev_cases)
  case Nil
  then show ?thesis by (simp add: exactly_one_trailing_newline_def)
next
  case (snoc ks y)
  then have py: "plain y" using assms by simp
  show ?thesis
  proof (cases "y = []")
    case True
    then show ?thesis using snoc
      by (cases "ks = []") (auto simp: join_snoc exactly_one_trailing_newline_def)
  next
    case False
    then show ?thesis using snoc plain_last[OF py False]
      by (auto simp: join_snoc exactly_one_snoc)
  qed
qed

lemmas text_eval =
  fallback_def read_text_def splitlines_def str_def section_header_def startswith_def
  strip_def isspace_def is_linebreak_def unlines_def plain_def

subsection \<open>Claims on the text-based removal\<close>

text \<open>
  C5. For every list of lines, and so for every file, the loop drops exactly the lines
  from a target header up to, and not including, the next line that starts with \<open>[\<close>
  (whatever follows the bracket), or up to the end when no such line follows: the loop
  is the function \<open>skip_spec\<close>, and the text written back is its lines joined by \<open>\n\<close>
  with one \<open>\n\<close> added.
\<close>

theorem boundary_rule:
  "remove_loop name False [] lines = skip_spec name lines \<and>
   fallback name file = join [0x0A] (skip_spec name (splitlines (read_text file))) @ [0x0A]"
  using loop_spec[of name lines] loop_spec[of name "splitlines (read_text file)"]
  by (simp add: fallback_def)

theorem boundary_rule_witness:
  "remove_loop (str ''libs'') False []
     [str ''[core]'', section_header (str ''libs''), str ''url = u'', str ''[[x'', str ''y''] =
   [str ''[core]'', str ''[[x'', str ''y''] \<and>
   fallback (str ''libs'') (section_header (str ''libs'') @ [0x0A] @ str ''url = u'') = [0x0A]"
  using boundary_rule[of "str ''libs''"
      "[str ''[core]'', section_header (str ''libs''), str ''url = u'', str ''[[x'', str ''y'']"
      "section_header (str ''libs'') @ [0x0A] @ str ''url = u''"]
  by (simp add: text_eval)

text \<open>
  C6. The fallback is idempotent: run on the text it has written, it writes the same
  text again.
\<close>

theorem fallback_idempotent: "fallback name (fallback name file) = fallback name file"
proof -
  define kept where "kept = remove_loop name False [] (splitlines (read_text file))"
  have out: "fallback name file = join [0x0A] kept @ [0x0A]"
    by (simp add: fallback_def kept_def)
  have pl: "list_all plain kept"
    unfolding kept_def by (rule kept_plain)
  have nt: "\<forall>l \<in> set kept. \<not> startswith (strip l) (section_header name)"
    using remove_loop_no_target[of _ name False] by (auto simp: kept_def)
  show ?thesis
  proof (cases "kept = []")
    case True
    have "fallback name [0x0A] = [0x0A]"
      by (simp add: text_eval)
    then show ?thesis using True out by simp
  next
    case False
    then have u: "fallback name file = unlines kept" using out join_unlines by simp
    have r: "read_text (unlines kept) = unlines kept"
      using plain_no_cr[OF pl] by (simp add: read_text_def universal_newlines_id)
    have "fallback name (unlines kept) = join [0x0A] kept @ [0x0A]"
      using r splitlines_unlines[OF pl] remove_loop_id[OF nt]
      by (simp add: fallback_def)
    then show ?thesis using u out by simp
  qed
qed

theorem fallback_idempotent_witness:
  "fallback (str ''libs'')
     (fallback (str ''libs'')
        (str ''[core]'' @ [0x0D, 0x0A] @ section_header (str ''libs'') @ [0x0D, 0x0A] @ str ''url = u'')) =
   str ''[core]'' @ [0x0A]"
  using fallback_idempotent[of "str ''libs''"
      "str ''[core]'' @ [0x0D, 0x0A] @ section_header (str ''libs'') @ [0x0D, 0x0A] @ str ''url = u''"]
  by (simp add: text_eval)

text \<open>
  C9, as the claim states it, fails: a file without the target section that ends with an
  empty line is written back with that empty line, so the text ends with two newlines.
\<close>

theorem rewrite_two_newlines_counterexample:
  "fallback (str ''libs'') (str ''[core]'' @ [0x0A] @ str ''bare = false'' @ [0x0A, 0x0A]) =
     str ''[core]'' @ [0x0A] @ str ''bare = false'' @ [0x0A, 0x0A] \<and>
   \<not> exactly_one_trailing_newline
     (fallback (str ''libs'') (str ''[core]'' @ [0x0A] @ str ''bare = false'' @ [0x0A, 0x0A]))"
  by (simp add: text_eval exactly_one_trailing_newline_def)

text \<open>
  C9, amended. For every file the text written back is not empty and ends with a
  newline; it ends with exactly one newline if and only if fewer than two lines are kept
  or the last kept line is not empty.
\<close>

theorem rewrite_ends_with_newline:
  "fallback name file \<noteq> [] \<and> last (fallback name file) = 0x0A \<and>
   (exactly_one_trailing_newline (fallback name file) \<longleftrightarrow>
      (length (remove_loop name False [] (splitlines (read_text file))) < 2 \<or>
       last (remove_loop name False [] (splitlines (read_text file))) \<noteq> []))"
  using join_kept_newline[OF kept_plain[of name "read_text file"]]
  by (simp add: fallback_def)

theorem rewrite_ends_with_newline_witness:
  "fallback (str ''libs'') (str ''[core]'' @ [0x0A] @ str ''bare = false'') \<noteq> [] \<and>
   last (fallback (str ''libs'') (str ''[core]'' @ [0x0A] @ str ''bare = false'')) = 0x0A \<and>
   exactly_one_trailing_newline
     (fallback (str ''libs'') (str ''[core]'' @ [0x0A] @ str ''bare = false'')) \<and>
   last (remove_loop (str ''libs'') False []
          (splitlines (read_text (str ''[core]'' @ [0x0A] @ str ''bare = false'')))) =
     str ''bare = false''"
  using rewrite_ends_with_newline[of "str ''libs''" "str ''[core]'' @ [0x0A] @ str ''bare = false''"]
  by (simp add: text_eval exactly_one_trailing_newline_def)

text \<open>
  C1, as the claim states it, fails: when the target section is the last one and an empty
  line separates it from the section before, that empty line stays, and the text written
  back, though it is the original without the block, ends with two newlines.
\<close>

theorem section_removed_counterexample:
  "fallback (str ''libs'')
     (unlines [section_header (str ''other''), 0x09 # str ''path = other'', [],
               section_header (str ''libs''), 0x09 # str ''path = libs'']) =
     unlines [section_header (str ''other''), 0x09 # str ''path = other'', []] \<and>
   \<not> exactly_one_trailing_newline
     (fallback (str ''libs'')
        (unlines [section_header (str ''other''), 0x09 # str ''path = other'', [],
                  section_header (str ''libs''), 0x09 # str ''path = libs'']))"
  by (simp add: text_eval exactly_one_trailing_newline_def)

text \<open>
  C1, amended. Take a file of lines that each end with one \<open>\n\<close> and hold no other line
  boundary, made of lines \<open>pre\<close> without a target header, the target header \<open>h\<close>, the lines
  \<open>body\<close> of which none starts with \<open>[\<close>, and lines \<open>post\<close> that are none or begin with a line
  starting with \<open>[\<close>, and hold no target header. The fallback writes the original without
  the block \<open>h\<close>, \<open>body\<close>, byte for byte (one newline when nothing else is left); the text
  ends with exactly one newline if and only if fewer than two lines are left or the last
  line left is not empty.
\<close>

theorem section_removed:
  assumes "list_all plain (pre @ h # body @ post)"
    and "startswith (strip h) (section_header name)"
    and "\<forall>l \<in> set pre. \<not> startswith (strip l) (section_header name)"
    and "\<forall>l \<in> set body. \<not> startswith (strip l) (str ''['')"
    and "case post of [] \<Rightarrow> True | p # _ \<Rightarrow> startswith (strip p) (str ''['')"
    and "\<forall>l \<in> set post. \<not> startswith (strip l) (section_header name)"
  shows "fallback name (unlines (pre @ h # body @ post)) =
           (if pre @ post = [] then [0x0A] else unlines (pre @ post)) \<and>
         (exactly_one_trailing_newline (fallback name (unlines (pre @ h # body @ post))) \<longleftrightarrow>
            (length (pre @ post) < 2 \<or> last (pre @ post) \<noteq> []))"
proof -
  have r: "read_text (unlines (pre @ h # body @ post)) = unlines (pre @ h # body @ post)"
    using plain_no_cr[OF assms(1)] by (simp add: read_text_def universal_newlines_id)
  have k: "remove_loop name False [] (splitlines (unlines (pre @ h # body @ post))) = pre @ post"
    using splitlines_unlines[OF assms(1)] block_removed[OF assms(2-6)] by simp
  have f: "fallback name (unlines (pre @ h # body @ post)) = join [0x0A] (pre @ post) @ [0x0A]"
    using r k by (simp add: fallback_def)
  have p: "list_all plain (pre @ post)"
    using assms(1) by simp
  have one: "fallback name (unlines (pre @ h # body @ post)) =
           (if pre @ post = [] then [0x0A] else unlines (pre @ post))"
  proof (cases "pre @ post = []")
    case True
    then show ?thesis using f by simp
  next
    case False
    then show ?thesis using f join_unlines[OF False] by auto
  qed
  show ?thesis
    using one join_kept_newline[OF p] f by simp
qed

theorem section_removed_witness:
  "fallback (str ''libs'')
     (unlines ([section_header (str ''other''), 0x09 # str ''path = other''] @
               section_header (str ''libs'') # [0x09 # str ''path = libs'', []] @
               [str ''[core]'', 0x09 # str ''bare = false''])) =
     unlines ([section_header (str ''other''), 0x09 # str ''path = other''] @
              [str ''[core]'', 0x09 # str ''bare = false'']) \<and>
   exactly_one_trailing_newline
     (fallback (str ''libs'')
        (unlines ([section_header (str ''other''), 0x09 # str ''path = other''] @
                  section_header (str ''libs'') # [0x09 # str ''path = libs'', []] @
                  [str ''[core]'', 0x09 # str ''bare = false''])))"
proof -
  let ?pre = "[section_header (str ''other''), 0x09 # str ''path = other'']"
  let ?h = "section_header (str ''libs'')"
  let ?body = "[0x09 # str ''path = libs'', []]"
  let ?post = "[str ''[core]'', 0x09 # str ''bare = false'']"
  have a1: "list_all plain (?pre @ ?h # ?body @ ?post)"
    by (simp add: text_eval)
  have a2: "startswith (strip ?h) (section_header (str ''libs''))"
    by (simp add: text_eval)
  have a3: "\<forall>l \<in> set ?pre. \<not> startswith (strip l) (section_header (str ''libs''))"
    by (simp add: text_eval)
  have a4: "\<forall>l \<in> set ?body. \<not> startswith (strip l) (str ''['')"
    by (simp add: text_eval)
  have a5: "case ?post of [] \<Rightarrow> True | p # _ \<Rightarrow> startswith (strip p) (str ''['')"
    by (simp add: text_eval)
  have a6: "\<forall>l \<in> set ?post. \<not> startswith (strip l) (section_header (str ''libs''))"
    by (simp add: text_eval)
  have l: "?pre @ ?post \<noteq> [] \<and> last (?pre @ ?post) \<noteq> []"
    by simp
  show ?thesis
    using section_removed[OF a1 a2 a3 a4 a5 a6] l by auto
qed

section \<open>Properties of the workflow\<close>

subsection \<open>Outcome and events of the building blocks\<close>

lemma fst_bind: "fst (bind m f) = (case fst m of Inl e \<Rightarrow> Inl e | Inr x \<Rightarrow> fst (f x))"
  by (simp add: bind_def split: sum.splits)

lemma snd_bind: "snd (bind m f) = (case fst m of Inl e \<Rightarrow> snd m | Inr x \<Rightarrow> snd m @ snd (f x))"
  by (simp add: bind_def split: sum.splits)

lemma io_simps:
  "fst (ret x) = Inr x" "snd (ret x) = []"
  "fst (emit e) = Inr ()" "snd (emit e) = [e]"
  "fst (raise ex) = Inl ex" "snd (raise ex) = []"
  by (simp_all add: ret_def emit_def raise_def)

lemma io_if:
  "fst (if c then a else b) = (if c then fst a else fst b)"
  "snd (if c then a else b) = (if c then snd a else snd b)"
  by simp_all

lemma io_case_sum:
  "fst (case x of Inl a \<Rightarrow> f a | Inr b \<Rightarrow> g b) = (case x of Inl a \<Rightarrow> fst (f a) | Inr b \<Rightarrow> fst (g b))"
  "snd (case x of Inl a \<Rightarrow> f a | Inr b \<Rightarrow> g b) = (case x of Inl a \<Rightarrow> snd (f a) | Inr b \<Rightarrow> snd (g b))"
  by (simp_all split: sum.splits)

lemma io_case_option:
  "fst (case y of None \<Rightarrow> p | Some a \<Rightarrow> q a) = (case y of None \<Rightarrow> fst p | Some a \<Rightarrow> fst (q a))"
  "snd (case y of None \<Rightarrow> p | Some a \<Rightarrow> q a) = (case y of None \<Rightarrow> snd p | Some a \<Rightarrow> snd (q a))"
  by (simp_all split: option.splits)

lemma fst_print:
  "fst (py_print w msg) = (if encodable w msg then Inr () else Inl (Raised UnicodeError))"
  by (simp add: py_print_def io_simps)

lemma snd_print: "snd (py_print w msg) = (if encodable w msg then [Print msg] else [])"
  by (simp add: py_print_def io_simps)

subsection \<open>Lines that can be printed\<close>

lemma encodes_ascii: "c < 0x80 \<Longrightarrow> encodes w c"
  by (simp add: encodes_def)

lemmas enc_defs = encodable_def frag_encodable_def encodes_def str_def echo_line_def

lemma enc_removing:
  "encodable w (removing_line path name) \<longleftrightarrow>
     list_all (encodes w) name \<and> list_all (list_all (encodes w)) path"
  by (simp add: removing_line_def enc_defs)

lemma enc_echo_file_remove:
  "encodable w (echo_line (git_config_file_remove_section (path @ [str ''.gitmodules'']) name)) \<longleftrightarrow>
     list_all (encodes w) name \<and> list_all (list_all (encodes w)) path"
  by (auto simp: git_config_file_remove_section_def enc_defs)

lemma enc_echo_add: "encodable w (echo_line git_add_gitmodules)"
  by (simp add: git_add_gitmodules_def enc_defs)

lemma enc_echo_remove:
  "encodable w (echo_line (git_config_remove_section name)) \<longleftrightarrow> list_all (encodes w) name"
  by (simp add: git_config_remove_section_def enc_defs)

lemma enc_echo_rm:
  "encodable w (echo_line (git_rm_cached name)) \<longleftrightarrow> list_all (encodes w) name"
  by (simp add: git_rm_cached_def enc_defs)

lemma enc_warn_gitmodules:
  "encodable w (warn_gitmodules name) \<longleftrightarrow> list_all (encodes w) name \<and> stdout_encodes w 0x2014"
  by (simp add: warn_gitmodules_def enc_defs)

lemma enc_warn_stage: "encodable w warn_stage"
  by (simp add: warn_stage_def enc_defs)

lemma enc_warn_config: "encodable w (warn_config name) \<longleftrightarrow> list_all (encodes w) name"
  by (simp add: warn_config_def enc_defs)

lemma enc_warn_unstage: "encodable w (warn_unstage name) \<longleftrightarrow> list_all (encodes w) name"
  by (simp add: warn_unstage_def enc_defs)

lemma enc_main:
  "encodable w [S (str ''Copying ci-tmp-bk to ci-tmp...'')]"
  "encodable w [S (str ''Cloning repository...'')]"
  "encodable w [S (str ''Initializing and updating remaining submodules...'')]"
  "encodable w (echo_line git_clone)"
  "encodable w (echo_line git_submodule_sync)"
  "encodable w (echo_line git_submodule_update)"
  "encodable w (copying_line (ci_tmp @ [str ''libs'']))"
  "encodable w (removing_line ci_tmp (str ''libs''))"
  "encodable w (failed_line rc)"
  "list_all (encodes w) (str ''libs'')"
  "list_all (list_all (encodes w)) ci_tmp"
  by (simp_all add: git_clone_def git_submodule_sync_def git_submodule_update_def
      copying_line_def removing_line_def failed_line_def repo_url_def ci_tmp_def root_def enc_defs)

lemmas enc_simps =
  enc_removing enc_echo_file_remove enc_echo_add enc_echo_remove enc_echo_rm
  enc_warn_gitmodules enc_warn_stage enc_warn_config enc_warn_unstage

subsection \<open>Running a command\<close>

lemma fst_run:
  "fst (run w cmd cwd) =
     (if \<not> encodable w (echo_line cmd) then Inl (Raised UnicodeError)
      else (case returncode w cmd of
              Inl e \<Rightarrow> Inl (Raised e)
            | Inr rc \<Rightarrow> if rc \<noteq> 0 then Inl (CalledProcessError rc) else Inr ()))"
  by (simp add: run_def fst_bind fst_print io_simps io_if io_case_sum split: sum.splits)

lemma snd_run:
  "snd (run w cmd cwd) = (if encodable w (echo_line cmd) then [echo cmd, Exec cmd cwd] else [])"
  by (simp add: run_def fst_bind snd_bind fst_print snd_print io_simps io_if io_case_sum echo_def
      split: sum.splits)

lemma fst_try_run:
  "fst (try_except (run w cmd cwd) (py_print w warning)) =
     (if \<not> encodable w (echo_line cmd) then Inl (Raised UnicodeError)
      else (case returncode w cmd of
              Inl e \<Rightarrow> Inl (Raised e)
            | Inr rc \<Rightarrow>
                if rc \<noteq> 0 \<and> \<not> encodable w warning then Inl (Raised UnicodeError) else Inr ()))"
  by (simp add: try_except_def fst_run fst_print is_CalledProcessError_def split: sum.splits)

lemma snd_try_run:
  "snd (try_except (run w cmd cwd) (py_print w warning)) =
     (if \<not> encodable w (echo_line cmd) then []
      else [echo cmd, Exec cmd cwd] @
           (case returncode w cmd of
              Inl e \<Rightarrow> []
            | Inr rc \<Rightarrow> if rc \<noteq> 0 \<and> encodable w warning then [Print warning] else []))"
  by (simp add: try_except_def fst_run snd_run snd_print is_CalledProcessError_def
      split: sum.splits)

lemma fst_manual_removal:
  "fst (manual_removal w gitmodules name) =
     (if \<not> encodable w (warn_gitmodules name) then Inl (Raised UnicodeError)
      else (case file_text w gitmodules of
              Inl e \<Rightarrow> Inl (Raised e)
            | Inr file \<Rightarrow>
                (case write_error w gitmodules of Some e \<Rightarrow> Inl (Raised e) | None \<Rightarrow> Inr True)))"
  by (simp add: manual_removal_def fst_bind fst_print io_simps split: sum.splits option.splits)

lemma snd_manual_removal:
  "snd (manual_removal w gitmodules name) =
     (if \<not> encodable w (warn_gitmodules name) then []
      else Print (warn_gitmodules name) #
           (case file_text w gitmodules of
              Inl e \<Rightarrow> []
            | Inr file \<Rightarrow>
                (case write_error w gitmodules of
                   Some e \<Rightarrow> []
                 | None \<Rightarrow> [WriteText gitmodules (fallback name file)])))"
  by (simp add: manual_removal_def fst_bind snd_bind fst_print snd_print io_simps
      split: sum.splits option.splits)

lemma fst_remove_from_gitmodules:
  "fst (remove_from_gitmodules w path name) =
     (if \<not> path_exists w (path @ [str ''.gitmodules'']) then Inr False
      else if \<not> encodable w (echo_line (git_config_file_remove_section (path @ [str ''.gitmodules'']) name))
        then Inl (Raised UnicodeError)
      else (case returncode w (git_config_file_remove_section (path @ [str ''.gitmodules'']) name) of
              Inl e \<Rightarrow> Inl (Raised e)
            | Inr rc \<Rightarrow>
                if rc = 0 then Inr True
                else fst (manual_removal w (path @ [str ''.gitmodules'']) name)))"
  by (simp add: remove_from_gitmodules_def Let_def try_except_def fst_bind fst_run
      is_CalledProcessError_def io_simps split: sum.splits)

lemma snd_remove_from_gitmodules:
  "snd (remove_from_gitmodules w path name) =
     (if \<not> path_exists w (path @ [str ''.gitmodules'']) then []
      else if \<not> encodable w (echo_line (git_config_file_remove_section (path @ [str ''.gitmodules'']) name))
        then []
      else [echo (git_config_file_remove_section (path @ [str ''.gitmodules'']) name),
            Exec (git_config_file_remove_section (path @ [str ''.gitmodules'']) name) (Some path)] @
           (case returncode w (git_config_file_remove_section (path @ [str ''.gitmodules'']) name) of
              Inl e \<Rightarrow> []
            | Inr rc \<Rightarrow>
                if rc = 0 then []
                else snd (manual_removal w (path @ [str ''.gitmodules'']) name)))"
  by (simp add: remove_from_gitmodules_def Let_def try_except_def fst_bind snd_bind fst_run
      snd_run is_CalledProcessError_def io_simps split: sum.splits)

lemmas cmd_defs =
  git_config_file_remove_section_def git_add_gitmodules_def git_config_remove_section_def
  git_rm_cached_def git_clone_def git_submodule_sync_def git_submodule_update_def str_def

subsection \<open>The commands are different command lines\<close>

lemma removal_cmds_distinct:
  "git_add_gitmodules \<noteq> git_config_file_remove_section g n"
  "git_add_gitmodules \<noteq> git_config_remove_section n"
  "git_add_gitmodules \<noteq> git_rm_cached n"
  "git_config_file_remove_section g n \<noteq> git_config_remove_section n'"
  "git_config_file_remove_section g n \<noteq> git_rm_cached n'"
  "git_config_remove_section n \<noteq> git_rm_cached n'"
  "git_config_file_remove_section g n \<noteq> git_add_gitmodules"
  "git_config_remove_section n \<noteq> git_add_gitmodules"
  "git_rm_cached n \<noteq> git_add_gitmodules"
  "git_config_remove_section n' \<noteq> git_config_file_remove_section g n"
  "git_rm_cached n' \<noteq> git_config_file_remove_section g n"
  "git_rm_cached n' \<noteq> git_config_remove_section n"
  by (simp_all add: cmd_defs)

lemma fatal_vs_removal:
  "git_clone \<noteq> git_config_file_remove_section g n" "git_clone \<noteq> git_add_gitmodules"
  "git_clone \<noteq> git_config_remove_section n" "git_clone \<noteq> git_rm_cached n"
  "git_submodule_sync \<noteq> git_config_file_remove_section g n"
  "git_submodule_sync \<noteq> git_add_gitmodules"
  "git_submodule_sync \<noteq> git_config_remove_section n" "git_submodule_sync \<noteq> git_rm_cached n"
  "git_submodule_update \<noteq> git_config_file_remove_section g n"
  "git_submodule_update \<noteq> git_add_gitmodules"
  "git_submodule_update \<noteq> git_config_remove_section n"
  "git_submodule_update \<noteq> git_rm_cached n"
  by (simp_all add: cmd_defs)

lemma fatal_distinct:
  "git_clone \<noteq> git_submodule_sync" "git_clone \<noteq> git_submodule_update"
  "git_submodule_sync \<noteq> git_submodule_update"
  "git_submodule_sync \<noteq> git_clone" "git_submodule_update \<noteq> git_clone"
  "git_submodule_update \<noteq> git_submodule_sync"
  by (simp_all add: cmd_defs)

subsection \<open>Outcome and events of the removal\<close>

lemma snd_finish_removal:
  assumes "list_all (encodes w) name"
  shows "snd (finish_removal w path name m) =
     (if m then
        [echo git_add_gitmodules, Exec git_add_gitmodules (Some path)] @
        (case returncode w git_add_gitmodules of
           Inl e \<Rightarrow> []
         | Inr rc \<Rightarrow> if rc \<noteq> 0 then [Print warn_stage] else [])
      else []) @
     (if m \<and> isl (returncode w git_add_gitmodules) then []
      else
        [echo (git_config_remove_section name), Exec (git_config_remove_section name) (Some path)] @
        (case returncode w (git_config_remove_section name) of
           Inl e \<Rightarrow> []
         | Inr rc \<Rightarrow>
             (if rc \<noteq> 0 then [Print (warn_config name)] else []) @
             [echo (git_rm_cached name), Exec (git_rm_cached name) (Some path)] @
             (case returncode w (git_rm_cached name) of
                Inl e \<Rightarrow> []
              | Inr rc' \<Rightarrow>
                  (if rc' \<noteq> 0 then [Print (warn_unstage name)] else []) @
                  (if path_exists w (path @ [name]) then [Rmtree (path @ [name])] else []) @
                  (if path_exists w (path @ [str ''.git'', str ''modules'', name])
                   then [Rmtree (path @ [str ''.git'', str ''modules'', name])] else []))))"
  using assms
  by (simp add: finish_removal_def fst_bind snd_bind fst_try_run snd_try_run io_simps io_if
      enc_simps split: sum.splits)

lemma fst_finish_removal:
  assumes "list_all (encodes w) name"
  shows "fst (finish_removal w path name m) =
     (if m \<and> isl (returncode w git_add_gitmodules)
        then Inl (Raised (projl (returncode w git_add_gitmodules)))
      else if isl (returncode w (git_config_remove_section name))
        then Inl (Raised (projl (returncode w (git_config_remove_section name))))
      else if isl (returncode w (git_rm_cached name))
        then Inl (Raised (projl (returncode w (git_rm_cached name))))
      else Inr ())"
  using assms
  by (simp add: finish_removal_def fst_bind fst_try_run io_simps io_if enc_simps
      split: sum.splits)

lemma removal_unprintable:
  "\<not> (list_all (encodes w) name \<and> list_all (list_all (encodes w)) path) \<Longrightarrow>
   remove_submodule w path name = (Inl (Raised UnicodeError), [])"
  by (simp add: prod_eq_iff remove_submodule_def fst_bind snd_bind fst_print snd_print enc_removing)

lemma snd_remove_submodule:
  assumes "list_all (encodes w) name" and "list_all (list_all (encodes w)) path"
  shows "snd (remove_submodule w path name) =
     Print (removing_line path name) # snd (remove_from_gitmodules w path name) @
     (case fst (remove_from_gitmodules w path name) of
        Inl e \<Rightarrow> []
      | Inr m \<Rightarrow> snd (finish_removal w path name m))"
  using assms
  by (simp add: remove_submodule_def fst_bind snd_bind fst_print snd_print enc_removing
      split: sum.splits)

lemma fst_remove_submodule:
  assumes "list_all (encodes w) name" and "list_all (list_all (encodes w)) path"
  shows "fst (remove_submodule w path name) =
     (case fst (remove_from_gitmodules w path name) of
        Inl e \<Rightarrow> Inl e
      | Inr m \<Rightarrow> fst (finish_removal w path name m))"
  using assms
  by (simp add: remove_submodule_def fst_bind fst_print enc_removing split: sum.splits)

text \<open>The events of the first part, when the lines can be printed.\<close>

lemma snd_gitmodules_printable:
  assumes "list_all (encodes w) name" and "list_all (list_all (encodes w)) path"
  shows "snd (remove_from_gitmodules w path name) =
     (if \<not> path_exists w (path @ [str ''.gitmodules'']) then []
      else [echo (git_config_file_remove_section (path @ [str ''.gitmodules'']) name),
            Exec (git_config_file_remove_section (path @ [str ''.gitmodules'']) name) (Some path)] @
           (case returncode w (git_config_file_remove_section (path @ [str ''.gitmodules'']) name) of
              Inl e \<Rightarrow> []
            | Inr rc \<Rightarrow>
                if rc = 0 \<or> \<not> stdout_encodes w 0x2014 then []
                else Print (warn_gitmodules name) #
                  (case file_text w (path @ [str ''.gitmodules'']) of
                     Inl e \<Rightarrow> []
                   | Inr file \<Rightarrow>
                       (case write_error w (path @ [str ''.gitmodules'']) of
                          Some e \<Rightarrow> []
                        | None \<Rightarrow> [WriteText (path @ [str ''.gitmodules'']) (fallback name file)]))))"
  using assms
  by (simp add: snd_remove_from_gitmodules snd_manual_removal enc_simps split: sum.splits)

lemma fst_gitmodules_printable:
  assumes "list_all (encodes w) name" and "list_all (list_all (encodes w)) path"
  shows "fst (remove_from_gitmodules w path name) =
     (if \<not> path_exists w (path @ [str ''.gitmodules'']) then Inr False
      else (case returncode w (git_config_file_remove_section (path @ [str ''.gitmodules'']) name) of
              Inl e \<Rightarrow> Inl (Raised e)
            | Inr rc \<Rightarrow>
                if rc = 0 then Inr True
                else if \<not> stdout_encodes w 0x2014 then Inl (Raised UnicodeError)
                else (case file_text w (path @ [str ''.gitmodules'']) of
                        Inl e \<Rightarrow> Inl (Raised e)
                      | Inr file \<Rightarrow>
                          (case write_error w (path @ [str ''.gitmodules'']) of
                             Some e \<Rightarrow> Inl (Raised e)
                           | None \<Rightarrow> Inr True))))"
  using assms
  by (simp add: fst_remove_from_gitmodules fst_manual_removal enc_simps split: sum.splits)

lemma finish_stage:
  assumes "list_all (encodes w) name"
  shows "Exec git_add_gitmodules (Some path) \<in> set (snd (finish_removal w path name m)) \<longleftrightarrow> m"
  using assms removal_cmds_distinct
  by (simp add: snd_finish_removal echo_def split: sum.splits)

lemma finish_no_gitmodules_event:
  assumes "list_all (encodes w) name"
  shows "Exec (git_config_file_remove_section g n) cwd \<notin> set (snd (finish_removal w path name m)) \<and>
         WriteText p c \<notin> set (snd (finish_removal w path name m))"
  using assms removal_cmds_distinct
  by (simp add: snd_finish_removal echo_def split: sum.splits)

lemma gitmodules_no_stage:
  "Exec git_add_gitmodules cwd \<notin> set (snd (remove_from_gitmodules w path name))"
  using removal_cmds_distinct
  by (simp add: snd_remove_from_gitmodules snd_manual_removal echo_def
      split: sum.splits option.splits)

lemma gitmodules_written:
  assumes "list_all (encodes w) name" and "list_all (list_all (encodes w)) path"
  shows "(\<exists>c. WriteText (path @ [str ''.gitmodules'']) c
            \<in> set (snd (remove_from_gitmodules w path name))) \<longleftrightarrow>
      path_exists w (path @ [str ''.gitmodules'']) \<and>
      (\<exists>rc file.
         returncode w (git_config_file_remove_section (path @ [str ''.gitmodules'']) name) = Inr rc \<and>
         rc \<noteq> 0 \<and> stdout_encodes w 0x2014 \<and>
         file_text w (path @ [str ''.gitmodules'']) = Inr file \<and>
         write_error w (path @ [str ''.gitmodules'']) = None)"
proof (cases "returncode w (git_config_file_remove_section (path @ [str ''.gitmodules'']) name)")
  case (Inl e)
  then show ?thesis
    by (simp add: snd_gitmodules_printable[OF assms] echo_def)
next
  case (Inr rc)
  show ?thesis
  proof (cases "file_text w (path @ [str ''.gitmodules''])")
    case (Inl e)
    then show ?thesis using Inr
      by (simp add: snd_gitmodules_printable[OF assms] echo_def)
  next
    case ft: (Inr f)
    show ?thesis
    proof (cases "write_error w (path @ [str ''.gitmodules''])")
      case None
      then show ?thesis using Inr ft
        by (simp add: snd_gitmodules_printable[OF assms] echo_def)
    next
      case (Some e)
      then show ?thesis using Inr ft
        by (simp add: snd_gitmodules_printable[OF assms] echo_def)
    qed
  qed
qed

subsection \<open>Claims on the removal of a submodule\<close>

text \<open>
  C8. \<open>git add .gitmodules\<close> is run if and only if the registry file was rewritten: the
  structured removal was run and returned 0, or the fallback wrote the file. This is the
  case exactly when the flag \<open>modified_gitmodules\<close> is set.
\<close>

theorem staged_iff_modified:
  "(Exec git_add_gitmodules (Some path) \<in> set (snd (remove_submodule w path name)) \<longleftrightarrow>
     (Exec (git_config_file_remove_section (path @ [str ''.gitmodules'']) name) (Some path)
        \<in> set (snd (remove_submodule w path name)) \<and>
      returncode w (git_config_file_remove_section (path @ [str ''.gitmodules'']) name) = Inr 0) \<or>
     (\<exists>new_content. WriteText (path @ [str ''.gitmodules'']) new_content
        \<in> set (snd (remove_submodule w path name)))) \<and>
   (Exec git_add_gitmodules (Some path) \<in> set (snd (remove_submodule w path name)) \<longleftrightarrow>
     fst (remove_from_gitmodules w path name) = Inr True)"
proof (cases "list_all (encodes w) name \<and> list_all (list_all (encodes w)) path")
  case False
  then have "fst (remove_from_gitmodules w path name) \<noteq> Inr True"
    by (auto simp: fst_remove_from_gitmodules enc_simps)
  then show ?thesis
    using removal_unprintable[OF False] by simp
next
  case True
  then have n: "list_all (encodes w) name" and p: "list_all (list_all (encodes w)) path"
    by simp_all
  let ?R = "remove_from_gitmodules w path name"
  let ?g = "path @ [str ''.gitmodules'']"
  have stage: "Exec git_add_gitmodules (Some path) \<in> set (snd (remove_submodule w path name)) \<longleftrightarrow>
      fst ?R = Inr True"
    using gitmodules_no_stage[of "Some path" w path name] finish_stage[OF n, of path]
    by (cases "fst ?R") (simp_all add: snd_remove_submodule[OF n p])
  have ex: "Exec (git_config_file_remove_section ?g name) (Some path)
        \<in> set (snd (remove_submodule w path name)) \<longleftrightarrow> path_exists w ?g"
    using finish_no_gitmodules_event[OF n, of ?g name "Some path" path]
    by (cases "fst ?R")
       (auto simp: snd_remove_submodule[OF n p] snd_gitmodules_printable[OF n p] echo_def
          split: sum.splits if_splits)
  have wr: "(\<exists>c. WriteText ?g c \<in> set (snd (remove_submodule w path name))) \<longleftrightarrow>
      path_exists w ?g \<and>
      (\<exists>rc file. returncode w (git_config_file_remove_section ?g name) = Inr rc \<and> rc \<noteq> 0 \<and>
         stdout_encodes w 0x2014 \<and> file_text w ?g = Inr file \<and> write_error w ?g = None)"
    using gitmodules_written[OF n p] finish_no_gitmodules_event[OF n, of ?g name "Some path" path]
    by (cases "fst ?R") (simp_all add: snd_remove_submodule[OF n p])
  have flag: "fst ?R = Inr True \<longleftrightarrow>
      path_exists w ?g \<and>
      (returncode w (git_config_file_remove_section ?g name) = Inr 0 \<or>
       (\<exists>rc file. returncode w (git_config_file_remove_section ?g name) = Inr rc \<and> rc \<noteq> 0 \<and>
         stdout_encodes w 0x2014 \<and> file_text w ?g = Inr file \<and> write_error w ?g = None))"
    by (auto simp: fst_gitmodules_printable[OF n p] split: sum.splits option.splits if_splits)
  show ?thesis
    unfolding stage ex wr flag by blast
qed

lemma gitmodules_exec:
  "Exec c cwd \<in> set (snd (remove_from_gitmodules w path name)) \<Longrightarrow>
   c = git_config_file_remove_section (path @ [str ''.gitmodules'']) name"
  by (auto simp: snd_remove_from_gitmodules snd_manual_removal echo_def
      split: sum.splits option.splits if_splits)












theorem staged_iff_modified_witness:
  "Exec git_add_gitmodules (Some ci_tmp) \<in> set (snd (remove_submodule
      \<lparr>path_exists = (\<lambda>p. True), returncode = (\<lambda>c. Inr 1), stdout_encodes = (\<lambda>c. True),
       file_text = (\<lambda>p. Inr []), write_error = (\<lambda>p. None), backup_copy_error = None,
       mkdir_error = (\<lambda>p. None), copy_error = (\<lambda>p. None), iterdir = (\<lambda>p. Inr []),
       follow = (\<lambda>t. Missing)\<rparr>
      ci_tmp (str ''libs''))) \<and>
   fst (remove_from_gitmodules
      \<lparr>path_exists = (\<lambda>p. True), returncode = (\<lambda>c. Inr 1), stdout_encodes = (\<lambda>c. True),
       file_text = (\<lambda>p. Inr []), write_error = (\<lambda>p. None), backup_copy_error = None,
       mkdir_error = (\<lambda>p. None), copy_error = (\<lambda>p. None), iterdir = (\<lambda>p. Inr []),
       follow = (\<lambda>t. Missing)\<rparr>
      ci_tmp (str ''libs'')) = Inr True \<and>
   Exec git_add_gitmodules (Some ci_tmp) \<notin> set (snd (remove_submodule
      \<lparr>path_exists = (\<lambda>p. False), returncode = (\<lambda>c. Inr 0), stdout_encodes = (\<lambda>c. True),
       file_text = (\<lambda>p. Inr []), write_error = (\<lambda>p. None), backup_copy_error = None,
       mkdir_error = (\<lambda>p. None), copy_error = (\<lambda>p. None), iterdir = (\<lambda>p. Inr []),
       follow = (\<lambda>t. Missing)\<rparr>
      ci_tmp (str ''libs''))) \<and>
   Exec git_add_gitmodules (Some ci_tmp) \<notin> set (snd (remove_submodule
      \<lparr>path_exists = (\<lambda>p. True), returncode = (\<lambda>c. Inr 1), stdout_encodes = (\<lambda>c. False),
       file_text = (\<lambda>p. Inr []), write_error = (\<lambda>p. None), backup_copy_error = None,
       mkdir_error = (\<lambda>p. None), copy_error = (\<lambda>p. None), iterdir = (\<lambda>p. Inr []),
       follow = (\<lambda>t. Missing)\<rparr>
      ci_tmp (str ''libs'')))"
proof -
  let ?w1 = "\<lparr>path_exists = (\<lambda>p. True), returncode = (\<lambda>c. Inr 1), stdout_encodes = (\<lambda>c. True),
       file_text = (\<lambda>p. Inr []), write_error = (\<lambda>p. None), backup_copy_error = None,
       mkdir_error = (\<lambda>p. None), copy_error = (\<lambda>p. None), iterdir = (\<lambda>p. Inr []),
       follow = (\<lambda>t. Missing)\<rparr>"
  let ?w2 = "\<lparr>path_exists = (\<lambda>p. False), returncode = (\<lambda>c. Inr 0), stdout_encodes = (\<lambda>c. True),
       file_text = (\<lambda>p. Inr []), write_error = (\<lambda>p. None), backup_copy_error = None,
       mkdir_error = (\<lambda>p. None), copy_error = (\<lambda>p. None), iterdir = (\<lambda>p. Inr []),
       follow = (\<lambda>t. Missing)\<rparr>"
  let ?w3 = "\<lparr>path_exists = (\<lambda>p. True), returncode = (\<lambda>c. Inr 1), stdout_encodes = (\<lambda>c. False),
       file_text = (\<lambda>p. Inr []), write_error = (\<lambda>p. None), backup_copy_error = None,
       mkdir_error = (\<lambda>p. None), copy_error = (\<lambda>p. None), iterdir = (\<lambda>p. Inr []),
       follow = (\<lambda>t. Missing)\<rparr>"
  have f1: "fst (remove_from_gitmodules ?w1 ci_tmp (str ''libs'')) = Inr True"
    by (simp add: fst_gitmodules_printable[OF enc_main(10) enc_main(11)])
  have f2: "fst (remove_from_gitmodules ?w2 ci_tmp (str ''libs'')) = Inr False"
    by (simp add: fst_gitmodules_printable[OF enc_main(10) enc_main(11)])
  have f3: "fst (remove_from_gitmodules ?w3 ci_tmp (str ''libs'')) = Inl (Raised UnicodeError)"
    by (simp add: fst_gitmodules_printable[OF enc_main(10) enc_main(11)])
  have s1: "Exec git_add_gitmodules (Some ci_tmp)
      \<in> set (snd (remove_submodule ?w1 ci_tmp (str ''libs'')))"
    using staged_iff_modified[of ci_tmp ?w1 "str ''libs''", THEN conjunct2] f1 by (simp only:)
  have s2: "Exec git_add_gitmodules (Some ci_tmp)
      \<notin> set (snd (remove_submodule ?w2 ci_tmp (str ''libs'')))"
    using staged_iff_modified[of ci_tmp ?w2 "str ''libs''", THEN conjunct2] f2 by simp
  have s3: "Exec git_add_gitmodules (Some ci_tmp)
      \<notin> set (snd (remove_submodule ?w3 ci_tmp (str ''libs'')))"
    using staged_iff_modified[of ci_tmp ?w3 "str ''libs''", THEN conjunct2] f3 by simp
  show ?thesis
    by (intro conjI s1 f1 s2 s3)
qed

subsection \<open>Outcome and events of the steps of the workflow\<close>

lemma fst_acquire:
  "fst (acquire w) =
     (if path_exists w ci_tmp then Inr ()
      else if path_exists w ci_tmp_bk
        then (case backup_copy_error w of Some e \<Rightarrow> Inl (Raised e) | None \<Rightarrow> Inr ())
      else (case returncode w git_clone of
              Inl e \<Rightarrow> Inl (Raised e)
            | Inr rc \<Rightarrow> if rc \<noteq> 0 then Inl (CalledProcessError rc) else Inr ()))"
  by (simp add: acquire_def copy_backup_def fst_bind fst_run fst_print enc_main io_simps io_if
      split: option.splits)

lemma snd_acquire:
  "snd (acquire w) =
     (if path_exists w ci_tmp then []
      else if path_exists w ci_tmp_bk
        then [Print [S (str ''Copying ci-tmp-bk to ci-tmp...'')], CopyBackup ci_tmp_bk ci_tmp]
      else [Print [S (str ''Cloning repository...'')], echo git_clone, Exec git_clone None])"
  by (simp add: acquire_def copy_backup_def fst_bind snd_bind snd_run fst_print snd_print
      enc_main io_simps io_if split: option.splits)

lemma copy_loop_events:
  "list_all (\<lambda>e. case e of CopyTree _ _ \<Rightarrow> True | Copy2 _ _ \<Rightarrow> True | _ \<Rightarrow> False)
     (snd (copy_loop w src dstp ex items dst))"
proof (induction items arbitrary: dst)
  case Nil
  then show ?case by (simp add: io_simps)
next
  case (Cons it items)
  obtain nm item where it: "it = (nm, item)" by (cases it)
  show ?case
    using Cons[of dst] Cons[of "dst @ [(nm, projr (copy_item w src dst nm item))]"]
    by (cases "copy_item w src dst nm item") (auto simp: it fst_bind snd_bind io_simps)
qed

lemma snd_copy:
  "snd (copy_local_repo_to_libs w src dstp ex) =
     (if \<not> encodable w (copying_line dstp) then []
      else Print (copying_line dstp) # Mkdir dstp #
        (case mkdir_error w dstp of
           Some e \<Rightarrow> []
         | None \<Rightarrow>
             (case iterdir w src of
                Inl e \<Rightarrow> []
              | Inr items \<Rightarrow> snd (copy_loop w src dstp ex items []))))"
  by (simp add: copy_local_repo_to_libs_def fst_bind snd_bind fst_print snd_print io_simps
      split: option.splits sum.splits)

lemma fst_copy:
  "fst (copy_local_repo_to_libs w src dstp ex) =
     (if \<not> encodable w (copying_line dstp) then Inl (Raised UnicodeError)
      else (case mkdir_error w dstp of
              Some e \<Rightarrow> Inl (Raised e)
            | None \<Rightarrow>
                (case iterdir w src of
                   Inl e \<Rightarrow> Inl (Raised e)
                 | Inr items \<Rightarrow> fst (copy_loop w src dstp ex items []))))"
  by (simp add: copy_local_repo_to_libs_def fst_bind fst_print io_simps
      split: option.splits sum.splits)

lemma copy_events:
  "e \<in> set (snd (copy_local_repo_to_libs w src dstp ex)) \<Longrightarrow>
   (case e of Print _ \<Rightarrow> True | Mkdir _ \<Rightarrow> True | CopyTree _ _ \<Rightarrow> True | Copy2 _ _ \<Rightarrow> True
    | _ \<Rightarrow> False)"
proof -
  assume a: "e \<in> set (snd (copy_local_repo_to_libs w src dstp ex))"
  have l: "e' \<in> set (snd (copy_loop w src dstp ex items [])) \<Longrightarrow>
      (case e' of CopyTree _ _ \<Rightarrow> True | Copy2 _ _ \<Rightarrow> True | _ \<Rightarrow> False)" for e' items
    using copy_loop_events[of w src dstp ex items "[]"] by (simp add: list_all_iff)
  show ?thesis
    using a l[of e]
    by (auto simp: snd_copy split: if_splits option.splits sum.splits event.splits)
qed


lemma copy_no_exec: "Exec c cwd \<notin> set (snd (copy_local_repo_to_libs w src dstp ex))"
  using copy_events[of "Exec c cwd" w src dstp ex] by auto

lemma removal_exec:
  assumes "Exec c cwd \<in> set (snd (remove_submodule w path name))"
  shows "c = git_config_file_remove_section (path @ [str ''.gitmodules'']) name \<or>
         c = git_add_gitmodules \<or> c = git_config_remove_section name \<or> c = git_rm_cached name"
proof (cases "list_all (encodes w) name \<and> list_all (list_all (encodes w)) path")
  case False
  then show ?thesis using assms removal_unprintable[OF False] by simp
next
  case True
  then have n: "list_all (encodes w) name" and p: "list_all (list_all (encodes w)) path"
    by simp_all
  show ?thesis
    using assms gitmodules_exec[of c cwd w path name]
    by (cases "fst (remove_from_gitmodules w path name)")
       (auto simp: snd_remove_submodule[OF n p] snd_finish_removal[OF n] echo_def
          split: sum.splits if_splits)
qed

lemma removal_events:
  assumes "e \<in> set (snd (remove_submodule w path name))"
  shows "\<not> is_clone e \<and> \<not> is_backup_copy e \<and> \<not> is_copy_step e"
proof (cases e)
  case (Exec c cwd)
  then show ?thesis
    using removal_exec[of c cwd w path name] assms
    by (auto simp: is_clone_def is_backup_copy_def is_copy_step_def cmd_defs)
next
  case (Print m)
  then show ?thesis by (simp add: is_clone_def is_backup_copy_def is_copy_step_def)
next
  case (WriteText p c)
  then show ?thesis by (simp add: is_clone_def is_backup_copy_def is_copy_step_def)
next
  case (Rmtree p)
  then show ?thesis by (simp add: is_clone_def is_backup_copy_def is_copy_step_def)
next
  case (CopyBackup a b)
  have "CopyBackup a b \<notin> set (snd (remove_submodule w path name))"
  proof (cases "list_all (encodes w) name \<and> list_all (list_all (encodes w)) path")
    case False
    then show ?thesis using removal_unprintable[OF False] by simp
  next
    case True
    then have n: "list_all (encodes w) name" and p: "list_all (list_all (encodes w)) path"
      by simp_all
    show ?thesis
      by (cases "fst (remove_from_gitmodules w path name)")
         (auto simp: snd_remove_submodule[OF n p] snd_finish_removal[OF n]
            snd_gitmodules_printable[OF n p] echo_def split: sum.splits option.splits if_splits)
  qed
  then show ?thesis using assms CopyBackup by simp
next
  case (Mkdir a)
  have "Mkdir a \<notin> set (snd (remove_submodule w path name))"
  proof (cases "list_all (encodes w) name \<and> list_all (list_all (encodes w)) path")
    case False
    then show ?thesis using removal_unprintable[OF False] by simp
  next
    case True
    then have n: "list_all (encodes w) name" and p: "list_all (list_all (encodes w)) path"
      by simp_all
    show ?thesis
      by (cases "fst (remove_from_gitmodules w path name)")
         (auto simp: snd_remove_submodule[OF n p] snd_finish_removal[OF n]
            snd_gitmodules_printable[OF n p] echo_def split: sum.splits option.splits if_splits)
  qed
  then show ?thesis using assms Mkdir by simp
next
  case (CopyTree a b)
  have "CopyTree a b \<notin> set (snd (remove_submodule w path name))"
  proof (cases "list_all (encodes w) name \<and> list_all (list_all (encodes w)) path")
    case False
    then show ?thesis using removal_unprintable[OF False] by simp
  next
    case True
    then have n: "list_all (encodes w) name" and p: "list_all (list_all (encodes w)) path"
      by simp_all
    show ?thesis
      by (cases "fst (remove_from_gitmodules w path name)")
         (auto simp: snd_remove_submodule[OF n p] snd_finish_removal[OF n]
            snd_gitmodules_printable[OF n p] echo_def split: sum.splits option.splits if_splits)
  qed
  then show ?thesis using assms CopyTree by simp
next
  case (Copy2 a b)
  have "Copy2 a b \<notin> set (snd (remove_submodule w path name))"
  proof (cases "list_all (encodes w) name \<and> list_all (list_all (encodes w)) path")
    case False
    then show ?thesis using removal_unprintable[OF False] by simp
  next
    case True
    then have n: "list_all (encodes w) name" and p: "list_all (list_all (encodes w)) path"
      by simp_all
    show ?thesis
      by (cases "fst (remove_from_gitmodules w path name)")
         (auto simp: snd_remove_submodule[OF n p] snd_finish_removal[OF n]
            snd_gitmodules_printable[OF n p] echo_def split: sum.splits option.splits if_splits)
  qed
  then show ?thesis using assms Copy2 by simp
qed

lemma removal_no_clone:
  "filter is_clone (snd (remove_submodule w path name)) = [] \<and>
   filter is_backup_copy (snd (remove_submodule w path name)) = [] \<and>
   filter is_copy_step (snd (remove_submodule w path name)) = []"
  using removal_events[of _ w path name] by (auto simp: filter_empty_conv)

lemma fst_main:
  "fst (main w) =
     (case fst (acquire w) of
        Inl e \<Rightarrow> Inl e
      | Inr _ \<Rightarrow>
          (case fst (remove_submodule w ci_tmp (str ''libs'')) of
             Inl e \<Rightarrow> Inl e
           | Inr _ \<Rightarrow>
               (case returncode w git_submodule_sync of
                  Inl e \<Rightarrow> Inl (Raised e)
                | Inr rc \<Rightarrow>
                    if rc \<noteq> 0 then Inl (CalledProcessError rc)
                    else (case returncode w git_submodule_update of
                            Inl e \<Rightarrow> Inl (Raised e)
                          | Inr rc' \<Rightarrow>
                              if rc' \<noteq> 0 then Inl (CalledProcessError rc')
                              else (case fst (copy_local_repo_to_libs w root
                                               (ci_tmp @ [str ''libs'']) (str ''ci-tmp'')) of
                                      Inl e \<Rightarrow> Inl e
                                    | Inr _ \<Rightarrow> Inr ())))))"
  by (simp add: main_def fst_bind fst_run fst_print enc_main io_simps split: sum.splits)

lemma snd_main:
  "snd (main w) =
     snd (acquire w) @
     (case fst (acquire w) of
        Inl e \<Rightarrow> []
      | Inr _ \<Rightarrow>
          snd (remove_submodule w ci_tmp (str ''libs'')) @
          (case fst (remove_submodule w ci_tmp (str ''libs'')) of
             Inl e \<Rightarrow> []
           | Inr _ \<Rightarrow>
               [Print [S (str ''Initializing and updating remaining submodules...'')],
                echo git_submodule_sync, Exec git_submodule_sync (Some ci_tmp)] @
               (if returncode w git_submodule_sync \<noteq> Inr 0 then []
                else [echo git_submodule_update, Exec git_submodule_update (Some ci_tmp)] @
                  (if returncode w git_submodule_update \<noteq> Inr 0 then []
                   else snd (copy_local_repo_to_libs w root (ci_tmp @ [str ''libs''])
                               (str ''ci-tmp''))))))"
  by (simp add: main_def fst_bind snd_bind fst_run snd_run fst_print snd_print enc_main io_simps
      split: sum.splits)

lemma removal_no_fatal_exec:
  "Exec git_clone cwd \<notin> set (snd (remove_submodule w path name)) \<and>
   Exec git_submodule_sync cwd \<notin> set (snd (remove_submodule w path name)) \<and>
   Exec git_submodule_update cwd \<notin> set (snd (remove_submodule w path name))"
  using removal_exec[of git_clone cwd w path name]
    removal_exec[of git_submodule_sync cwd w path name]
    removal_exec[of git_submodule_update cwd w path name] fatal_vs_removal
  by auto

lemma script_CalledProcessError:
  "fst (main w) = Inl (CalledProcessError rc) \<Longrightarrow>
   script w = (rc mod 256, snd (main w) @ [Print (failed_line rc)])"
  by (simp add: script_def fst_print snd_print enc_main)

lemma script_Raised:
  "fst (main w) = Inl (Raised e) \<Longrightarrow> script w = (1, snd (main w))"
  by (simp add: script_def)

lemma acquire_no_copy_step: "filter is_copy_step (snd (acquire w)) = []"
  by (simp add: snd_acquire is_copy_step_def echo_def)

text \<open>
  A command that is run outside a \<open>try\<close> and does not return 0 is the last event of
  \<open>main\<close>, and \<open>main\<close> ends with its exception.
\<close>

lemma clone_fails:
  assumes "Exec git_clone cwd \<in> set (snd (main w))" and "returncode w git_clone \<noteq> Inr 0"
  shows "fst (main w) =
           (case returncode w git_clone of
              Inl e \<Rightarrow> Inl (Raised e) | Inr rc \<Rightarrow> Inl (CalledProcessError rc)) \<and>
         filter is_copy_step (snd (main w)) = [] \<and> last (snd (main w)) = Exec git_clone cwd"
proof -
  have a: "\<not> path_exists w ci_tmp \<and> \<not> path_exists w ci_tmp_bk"
    using assms(1) removal_no_fatal_exec[of cwd w ci_tmp "str ''libs''"]
      copy_no_exec[of git_clone cwd w root "ci_tmp @ [str ''libs'']" "str ''ci-tmp''"]
      fatal_distinct
    by (auto simp: snd_main snd_acquire echo_def split: if_splits sum.splits)
  then have "cwd = None"
    using assms removal_no_fatal_exec[of cwd w ci_tmp "str ''libs''"]
      copy_no_exec[of git_clone cwd w root "ci_tmp @ [str ''libs'']" "str ''ci-tmp''"]
      fatal_distinct
    by (auto simp: snd_main snd_acquire echo_def split: if_splits sum.splits)
  then show ?thesis
    using a assms(2)
    by (cases "returncode w git_clone")
       (simp_all add: fst_main snd_main fst_acquire snd_acquire is_copy_step_def echo_def)
qed

lemma sync_fails:
  assumes "Exec git_submodule_sync cwd \<in> set (snd (main w))"
    and "returncode w git_submodule_sync \<noteq> Inr 0"
  shows "fst (main w) =
           (case returncode w git_submodule_sync of
              Inl e \<Rightarrow> Inl (Raised e) | Inr rc \<Rightarrow> Inl (CalledProcessError rc)) \<and>
         filter is_copy_step (snd (main w)) = [] \<and>
         last (snd (main w)) = Exec git_submodule_sync cwd"
proof -
  have a: "fst (acquire w) = Inr ()"
    using assms(1) fatal_distinct
    by (cases "fst (acquire w)")
       (auto simp: snd_main snd_acquire echo_def split: if_splits)
  have r: "fst (remove_submodule w ci_tmp (str ''libs'')) = Inr ()"
    using assms(1) a removal_no_fatal_exec[of cwd w ci_tmp "str ''libs''"] fatal_distinct
    by (cases "fst (remove_submodule w ci_tmp (str ''libs''))")
       (auto simp: snd_main snd_acquire echo_def split: if_splits)
  have "cwd = Some ci_tmp"
    using assms a r removal_no_fatal_exec[of cwd w ci_tmp "str ''libs''"] fatal_distinct
    by (auto simp: snd_main snd_acquire echo_def split: if_splits)
  then show ?thesis
    using a r assms(2) removal_no_clone[of w ci_tmp "str ''libs''"] acquire_no_copy_step[of w]
    by (cases "returncode w git_submodule_sync")
       (simp_all add: fst_main snd_main is_copy_step_def echo_def)
qed

lemma update_fails:
  assumes "Exec git_submodule_update cwd \<in> set (snd (main w))"
    and "returncode w git_submodule_update \<noteq> Inr 0"
  shows "fst (main w) =
           (case returncode w git_submodule_update of
              Inl e \<Rightarrow> Inl (Raised e) | Inr rc \<Rightarrow> Inl (CalledProcessError rc)) \<and>
         filter is_copy_step (snd (main w)) = [] \<and>
         last (snd (main w)) = Exec git_submodule_update cwd"
proof -
  have a: "fst (acquire w) = Inr ()"
    using assms(1) fatal_distinct
    by (cases "fst (acquire w)")
       (auto simp: snd_main snd_acquire echo_def split: if_splits)
  have r: "fst (remove_submodule w ci_tmp (str ''libs'')) = Inr ()"
    using assms(1) a removal_no_fatal_exec[of cwd w ci_tmp "str ''libs''"] fatal_distinct
    by (cases "fst (remove_submodule w ci_tmp (str ''libs''))")
       (auto simp: snd_main snd_acquire echo_def split: if_splits)
  have s: "returncode w git_submodule_sync = Inr 0"
    using assms(1) a r removal_no_fatal_exec[of cwd w ci_tmp "str ''libs''"] fatal_distinct
    by (auto simp: snd_main snd_acquire echo_def split: if_splits)
  have "cwd = Some ci_tmp"
    using assms a r s removal_no_fatal_exec[of cwd w ci_tmp "str ''libs''"] fatal_distinct
    by (auto simp: snd_main snd_acquire echo_def split: if_splits)
  then show ?thesis
    using a r s assms(2) removal_no_clone[of w ci_tmp "str ''libs''"] acquire_no_copy_step[of w]
    by (cases "returncode w git_submodule_update")
       (simp_all add: fst_main snd_main is_copy_step_def echo_def)
qed

subsection \<open>Claims on the workflow\<close>

text \<open>
  C3. When one of the commands that are run outside a \<open>try\<close> (the clone, the submodule
  sync, the submodule update) is run and returns a code \<open>rc\<close> other than 0, it is the last
  event of \<open>main\<close>, no event of the copy step occurs, the code is printed, and the status
  of the process is \<open>rc mod 256\<close>: the code itself whenever it is an exit code, between 1
  and 255. When such a command cannot be started, it is the last event as well, nothing
  is copied, and the status is 1. When \<open>main\<close> returns the status is 0, and \<open>main\<close> returns
  when every step succeeds: the staging directory is there or is obtained, the removal
  of the submodule returns, both submodule commands return 0 and the copy raises
  nothing.
\<close>

theorem fatal_command_halts:
  "(c \<in> {git_clone, git_submodule_sync, git_submodule_update} \<and>
    Exec c cwd \<in> set (snd (main w)) \<and> returncode w c = Inr rc \<and> rc \<noteq> 0 \<longrightarrow>
      fst (script w) = rc mod 256 \<and>
      (0 < rc \<and> rc \<le> 255 \<longrightarrow> fst (script w) = rc) \<and>
      last (snd (main w)) = Exec c cwd \<and>
      snd (script w) = snd (main w) @ [Print (failed_line rc)] \<and>
      filter is_copy_step (snd (script w)) = []) \<and>
   (c \<in> {git_clone, git_submodule_sync, git_submodule_update} \<and>
    Exec c cwd \<in> set (snd (main w)) \<and> returncode w c = Inl e \<longrightarrow>
      fst (script w) = 1 \<and>
      last (snd (main w)) = Exec c cwd \<and>
      filter is_copy_step (snd (script w)) = []) \<and>
   (fst (main w) = Inr () \<longrightarrow> fst (script w) = 0) \<and>
   ((path_exists w ci_tmp \<or> (path_exists w ci_tmp_bk \<and> backup_copy_error w = None) \<or>
       (\<not> path_exists w ci_tmp_bk \<and> returncode w git_clone = Inr 0)) \<and>
    fst (remove_submodule w ci_tmp (str ''libs'')) = Inr () \<and>
    returncode w git_submodule_sync = Inr 0 \<and> returncode w git_submodule_update = Inr 0 \<and>
    (\<exists>d. fst (copy_local_repo_to_libs w root (ci_tmp @ [str ''libs'']) (str ''ci-tmp'')) = Inr d) \<longrightarrow>
      fst (main w) = Inr ())"
proof -
  have stops: "fst (main w) =
           (case returncode w c of
              Inl e \<Rightarrow> Inl (Raised e) | Inr rc \<Rightarrow> Inl (CalledProcessError rc)) \<and>
         filter is_copy_step (snd (main w)) = [] \<and> last (snd (main w)) = Exec c cwd"
    if c: "c \<in> {git_clone, git_submodule_sync, git_submodule_update}"
      and e: "Exec c cwd \<in> set (snd (main w))" and r: "returncode w c \<noteq> Inr 0"
    using c e r clone_fails[of cwd w] sync_fails[of cwd w] update_fails[of cwd w] by auto
  have coded: "fst (script w) = rc mod 256 \<and>
      (0 < rc \<and> rc \<le> 255 \<longrightarrow> fst (script w) = rc) \<and>
      last (snd (main w)) = Exec c cwd \<and>
      snd (script w) = snd (main w) @ [Print (failed_line rc)] \<and>
      filter is_copy_step (snd (script w)) = []"
    if c: "c \<in> {git_clone, git_submodule_sync, git_submodule_update}"
      and e: "Exec c cwd \<in> set (snd (main w))" and r: "returncode w c = Inr rc" "rc \<noteq> 0"
  proof -
    have m: "fst (main w) = Inl (CalledProcessError rc) \<and>
         filter is_copy_step (snd (main w)) = [] \<and> last (snd (main w)) = Exec c cwd"
      using stops[OF c e] r by simp
    then have s: "script w = (rc mod 256, snd (main w) @ [Print (failed_line rc)])"
      using script_CalledProcessError by simp
    have "0 < rc \<and> rc \<le> 255 \<longrightarrow> rc mod 256 = rc" by simp
    then show ?thesis
      using m s by (simp add: is_copy_step_def)
  qed
  have unstarted: "fst (script w) = 1 \<and> last (snd (main w)) = Exec c cwd \<and>
      filter is_copy_step (snd (script w)) = []"
    if c: "c \<in> {git_clone, git_submodule_sync, git_submodule_update}"
      and e: "Exec c cwd \<in> set (snd (main w))" and r: "returncode w c = Inl e'" for e'
  proof -
    have m: "fst (main w) = Inl (Raised e') \<and>
         filter is_copy_step (snd (main w)) = [] \<and> last (snd (main w)) = Exec c cwd"
      using stops[OF c e] r by simp
    then show ?thesis
      using script_Raised[of w e'] by simp
  qed
  have returned: "fst (script w) = 0" if "fst (main w) = Inr ()"
    using that by (simp add: script_def)
  have ok: "fst (main w) = Inr ()"
    if "path_exists w ci_tmp \<or> (path_exists w ci_tmp_bk \<and> backup_copy_error w = None) \<or>
         (\<not> path_exists w ci_tmp_bk \<and> returncode w git_clone = Inr 0)"
      and "fst (remove_submodule w ci_tmp (str ''libs'')) = Inr ()"
      and "returncode w git_submodule_sync = Inr 0" and "returncode w git_submodule_update = Inr 0"
      and "\<exists>d. fst (copy_local_repo_to_libs w root (ci_tmp @ [str ''libs'']) (str ''ci-tmp'')) = Inr d"
  proof -
    have "fst (acquire w) = Inr ()"
      using that(1) by (auto simp: fst_acquire)
    then show ?thesis
      using that(2-5) by (auto simp: fst_main)
  qed
  show ?thesis
    using coded unstarted[of e] returned ok by blast
qed


theorem fatal_command_halts_witness:
  "fst (script \<lparr>path_exists = (\<lambda>p. False),
                returncode = (\<lambda>c. if c = git_clone then Inr 128 else Inr 0),
                stdout_encodes = (\<lambda>c. True), file_text = (\<lambda>p. Inr []),
                write_error = (\<lambda>p. None), backup_copy_error = None,
                mkdir_error = (\<lambda>p. None), copy_error = (\<lambda>p. None),
                iterdir = (\<lambda>p. Inr []), follow = (\<lambda>t. Missing)\<rparr>) = 128 \<and>
   filter is_copy_step
     (snd (script \<lparr>path_exists = (\<lambda>p. False),
                   returncode = (\<lambda>c. if c = git_clone then Inr 128 else Inr 0),
                   stdout_encodes = (\<lambda>c. True), file_text = (\<lambda>p. Inr []),
                   write_error = (\<lambda>p. None), backup_copy_error = None,
                   mkdir_error = (\<lambda>p. None), copy_error = (\<lambda>p. None),
                   iterdir = (\<lambda>p. Inr []), follow = (\<lambda>t. Missing)\<rparr>)) = [] \<and>
   fst (script \<lparr>path_exists = (\<lambda>p. p = ci_tmp),
                returncode = (\<lambda>c. if c = git_submodule_sync then Inr (- 9) else Inr 0),
                stdout_encodes = (\<lambda>c. True), file_text = (\<lambda>p. Inr []),
                write_error = (\<lambda>p. None), backup_copy_error = None,
                mkdir_error = (\<lambda>p. None), copy_error = (\<lambda>p. None),
                iterdir = (\<lambda>p. Inr []), follow = (\<lambda>t. Missing)\<rparr>) = 247 \<and>
   fst (script \<lparr>path_exists = (\<lambda>p. p = ci_tmp),
                returncode = (\<lambda>c. if c = git_submodule_update then Inl FileNotFoundError else Inr 0),
                stdout_encodes = (\<lambda>c. True), file_text = (\<lambda>p. Inr []),
                write_error = (\<lambda>p. None), backup_copy_error = None,
                mkdir_error = (\<lambda>p. None), copy_error = (\<lambda>p. None),
                iterdir = (\<lambda>p. Inr []), follow = (\<lambda>t. Missing)\<rparr>) = 1 \<and>
   fst (script \<lparr>path_exists = (\<lambda>p. p = ci_tmp), returncode = (\<lambda>c. Inr 0),
                stdout_encodes = (\<lambda>c. True), file_text = (\<lambda>p. Inr []),
                write_error = (\<lambda>p. None), backup_copy_error = None,
                mkdir_error = (\<lambda>p. None), copy_error = (\<lambda>p. None),
                iterdir = (\<lambda>p. Inr [(str ''.git'', Dir []), (str ''ci-tmp'', Dir [])]),
                follow = (\<lambda>t. Missing)\<rparr>) = 0"
proof -
  let ?w1 = "\<lparr>path_exists = (\<lambda>p. False),
                returncode = (\<lambda>c. if c = git_clone then Inr 128 else Inr 0),
                stdout_encodes = (\<lambda>c. True), file_text = (\<lambda>p. Inr []),
                write_error = (\<lambda>p. None), backup_copy_error = None,
                mkdir_error = (\<lambda>p. None), copy_error = (\<lambda>p. None),
                iterdir = (\<lambda>p. Inr []), follow = (\<lambda>t. Missing)\<rparr>"
  let ?w2 = "\<lparr>path_exists = (\<lambda>p. p = ci_tmp),
                returncode = (\<lambda>c. if c = git_submodule_sync then Inr (- 9) else Inr 0),
                stdout_encodes = (\<lambda>c. True), file_text = (\<lambda>p. Inr []),
                write_error = (\<lambda>p. None), backup_copy_error = None,
                mkdir_error = (\<lambda>p. None), copy_error = (\<lambda>p. None),
                iterdir = (\<lambda>p. Inr []), follow = (\<lambda>t. Missing)\<rparr>"
  let ?w3 = "\<lparr>path_exists = (\<lambda>p. p = ci_tmp),
                returncode = (\<lambda>c. if c = git_submodule_update then Inl FileNotFoundError else Inr 0),
                stdout_encodes = (\<lambda>c. True), file_text = (\<lambda>p. Inr []),
                write_error = (\<lambda>p. None), backup_copy_error = None,
                mkdir_error = (\<lambda>p. None), copy_error = (\<lambda>p. None),
                iterdir = (\<lambda>p. Inr []), follow = (\<lambda>t. Missing)\<rparr>"
  let ?w4 = "\<lparr>path_exists = (\<lambda>p. p = ci_tmp), returncode = (\<lambda>c. Inr 0),
                stdout_encodes = (\<lambda>c. True), file_text = (\<lambda>p. Inr []),
                write_error = (\<lambda>p. None), backup_copy_error = None,
                mkdir_error = (\<lambda>p. None), copy_error = (\<lambda>p. None),
                iterdir = (\<lambda>p. Inr [(str ''.git'', Dir []), (str ''ci-tmp'', Dir [])]),
                follow = (\<lambda>t. Missing)\<rparr>"
  have g: "ci_tmp @ [str ''.gitmodules''] \<noteq> ci_tmp"
    by simp
  have rem: "fst (remove_submodule w ci_tmp (str ''libs'')) = Inr ()"
    if "\<not> path_exists w (ci_tmp @ [str ''.gitmodules''])"
      and "\<not> isl (returncode w (git_config_remove_section (str ''libs'')))"
      and "\<not> isl (returncode w (git_rm_cached (str ''libs'')))" for w
    using that
    by (simp add: fst_remove_submodule[OF enc_main(10) enc_main(11)]
        fst_gitmodules_printable[OF enc_main(10) enc_main(11)] fst_finish_removal[OF enc_main(10)])
  have r2: "fst (remove_submodule ?w2 ci_tmp (str ''libs'')) = Inr ()"
    using g by (intro rem) (simp_all add: fatal_vs_removal fatal_vs_removal[symmetric])
  have r3: "fst (remove_submodule ?w3 ci_tmp (str ''libs'')) = Inr ()"
    using g by (intro rem) (simp_all add: fatal_vs_removal fatal_vs_removal[symmetric])
  have r4: "fst (remove_submodule ?w4 ci_tmp (str ''libs'')) = Inr ()"
    using g by (intro rem) simp_all
  have m: "git_clone \<in> {git_clone, git_submodule_sync, git_submodule_update}"
    "git_submodule_sync \<in> {git_clone, git_submodule_sync, git_submodule_update}"
    "git_submodule_update \<in> {git_clone, git_submodule_sync, git_submodule_update}"
    by simp_all
  have e1: "Exec git_clone None \<in> set (snd (main ?w1))"
    by (simp add: snd_main snd_acquire)
  have e2: "Exec git_submodule_sync (Some ci_tmp) \<in> set (snd (main ?w2))"
    using r2 by (simp add: snd_main snd_acquire fst_acquire)
  have e3: "Exec git_submodule_update (Some ci_tmp) \<in> set (snd (main ?w3))"
    using r3 by (simp add: snd_main snd_acquire fst_acquire fatal_distinct)
  have v1: "returncode ?w1 git_clone = Inr 128 \<and> (128::int) \<noteq> 0" by simp
  have v2: "returncode ?w2 git_submodule_sync = Inr (- 9) \<and> (- 9::int) \<noteq> 0" by simp
  have v3: "returncode ?w3 git_submodule_update = Inl FileNotFoundError" by simp
  have c4: "\<exists>d. fst (copy_local_repo_to_libs ?w4 root (ci_tmp @ [str ''libs'']) (str ''ci-tmp''))
             = Inr d"
    using enc_main(7)[of ?w4]
    by (simp add: fst_copy fst_bind io_simps copy_item_def is_dir_def scandir_def
        collect_def str_def)
  have p4: "path_exists ?w4 ci_tmp \<and> returncode ?w4 git_submodule_sync = Inr 0 \<and>
           returncode ?w4 git_submodule_update = Inr 0"
    by simp
  have f1: "fst (script ?w1) = 128 mod 256 \<and> filter is_copy_step (snd (script ?w1)) = []"
    using fatal_command_halts[of git_clone None ?w1 128] m(1) e1 v1 by blast
  have f2: "fst (script ?w2) = (- 9) mod 256"
    using fatal_command_halts[of git_submodule_sync "Some ci_tmp" ?w2 "- 9"] m(2) e2 v2 by blast
  have f3: "fst (script ?w3) = 1"
    using fatal_command_halts[of git_submodule_update "Some ci_tmp" ?w3 _ FileNotFoundError]
      m(3) e3 v3 by blast
  have f4: "fst (script ?w4) = 0"
    using fatal_command_halts[of git_clone None ?w4] c4 p4 r4 by blast
  have a: "(128::int) mod 256 = 128" "(- 9::int) mod 256 = 247" by simp_all
  show ?thesis
    using f1 f2 f3 f4 a by presburger
qed


section \<open>Properties of the copy\<close>











subsection \<open>Claims on the copy\<close>







end
